theory Spec2Isabelle
  imports Main "HOL-Library.Word"
begin

section \<open>Diffie-Hellman secret agreement (lib/dh.c)\<close>

text \<open>
  The file holds one function, \<open>SymCryptDhSecretAgreement\<close>. Everything it calls
  (the group comparison, the size queries and macros, the allocator callbacks, the
  modular-arithmetic primitives, the wipe) lives elsewhere in the library. The
  function is embedded below statement by statement; the functions it calls are the
  fields of a record \<open>engine\<close>, so a theorem about the function holds for every
  implementation of them, unless it states what it assumes of one.
\<close>

subsection \<open>Machine types\<close>

text \<open>\<open>SIZE_T\<close> is taken at 64 bits.\<close>

type_synonym BYTE = "8 word"
type_synonym UINT32 = "32 word"
type_synonym SIZE_T = "64 word"

text \<open>
  Memory is a set of disjoint blocks; a non-NULL pointer is a block and a byte offset
  into it, and \<open>None\<close> is NULL. Pointer arithmetic moves the offset.
\<close>

type_synonym PBYTE = "(nat \<times> nat) option"

definition ptr_add :: "PBYTE \<Rightarrow> nat \<Rightarrow> PBYTE" where
  "ptr_add pb n = (case pb of None \<Rightarrow> None | Some (b, off) \<Rightarrow> Some (b, off + n))"

text \<open>
  The status codes the function itself produces, and \<open>SYMCRYPT_OTHER_ERROR\<close> for
  every other code of the enumeration (the value-extraction primitive may hand any
  of them back).
\<close>

datatype SYMCRYPT_ERROR =
    SYMCRYPT_NO_ERROR
  | SYMCRYPT_WRONG_BLOCK_SIZE
  | SYMCRYPT_INVALID_BLOB
  | SYMCRYPT_INVALID_ARGUMENT
  | SYMCRYPT_MEMORY_ALLOCATION_FAILURE
  | SYMCRYPT_OTHER_ERROR nat

type_synonym SYMCRYPT_NUMBER_FORMAT = int

subsection \<open>Groups and keys\<close>

text \<open>
  The fields of the two structures that the function reads. The modulus object
  \<open>'m\<close>, the modular element \<open>'e\<close> and the big integer \<open>'i\<close> are opaque to
  the function, hence type parameters. A key points to its group; the group is only
  read here, so the key carries the group it points to.
\<close>

record 'm SYMCRYPT_DLGROUP =
  pmP :: 'm
  nDigitsOfP :: UINT32
  nBitsOfP :: UINT32

record ('m, 'e, 'i) SYMCRYPT_DLKEY =
  fHasPrivateKey :: bool
  fPrivateModQ :: bool
  nBitsPriv :: UINT32
  pDlgroup :: "'m SYMCRYPT_DLGROUP"
  pePublicKey :: 'e
  piPrivateKey :: 'i

subsection \<open>Calls to the rest of the library\<close>

text \<open>
  Every call the function makes to an allocator callback, to the wipe or to an
  arithmetic primitive is recorded, in order, with its arguments and its result.
\<close>

datatype ('m, 'e, 'i) call =
    Call_CallbackAlloc SIZE_T PBYTE
  | Call_ModElementCreate PBYTE UINT32 'm "'e option"
  | Call_ModExp 'm 'e 'i UINT32 UINT32 PBYTE SIZE_T 'e
  | Call_ModElementIsZero 'm 'e bool
  | Call_ModElementGetValue 'm 'e SIZE_T SYMCRYPT_NUMBER_FORMAT PBYTE SIZE_T SYMCRYPT_ERROR
  | Call_Wipe PBYTE SIZE_T
  | Call_CallbackFree PBYTE

text \<open>
  The state a call runs in: the live heap blocks with their contents, the caller's
  destination buffer \<open>pbAgreedSecret\<close>, the blocks released so far with the contents
  they had when they were released, and the calls made so far.
\<close>

record ('m, 'e, 'i) state =
  heap :: "nat \<Rightarrow> BYTE list option"
  pbAgreedSecret :: "BYTE list"
  released :: "(nat \<times> BYTE list) list"
  calls :: "('m, 'e, 'i) call list"

text \<open>
  The functions and macros that \<open>dh.c\<close> uses and does not define. A primitive that
  is handed an output buffer returns the bytes it leaves there, as a function of the
  byte's index in the buffer (the buffers are output-only: \<open>_Out_writes_\<close>).
  \<^item> \<open>alloc_result cb h\<close>: what \<open>SymCryptCallbackAlloc( cb )\<close> returns on heap
    \<open>h\<close>: NULL, or a block and its uninitialised contents;
  \<^item> \<open>create_result cb pm\<close>: the element \<open>SymCryptModElementCreate\<close> makes in a
    buffer of \<open>cb\<close> bytes for modulus \<open>pm\<close>, or NULL;
  \<^item> \<open>modexp_result pm b x n f cb\<close>: the element \<open>SymCryptModExp\<close> stores in
    \<open>peDst\<close>, and the bytes it leaves in the scratch block;
  \<^item> \<open>getvalue_result pm e cbDst fmt cb\<close>: the status of
    \<open>SymCryptModElementGetValue\<close>, the bytes it leaves in the destination and the
    bytes it leaves in its scratch space.
\<close>

record ('m, 'e, 'i) engine =
  SymCryptDlgroupIsSame :: "'m SYMCRYPT_DLGROUP \<Rightarrow> 'm SYMCRYPT_DLGROUP \<Rightarrow> bool"
  SymCryptDlkeySizeofPublicKey :: "('m, 'e, 'i) SYMCRYPT_DLKEY \<Rightarrow> UINT32"
  SymCryptSizeofModElementFromModulus :: "'m \<Rightarrow> UINT32"
  SYMCRYPT_SCRATCH_BYTES_FOR_MODEXP :: "UINT32 \<Rightarrow> UINT32"
  SYMCRYPT_SCRATCH_BYTES_FOR_COMMON_MOD_OPERATIONS :: "UINT32 \<Rightarrow> UINT32"
  SymCryptModElementIsZero :: "'m \<Rightarrow> 'e \<Rightarrow> bool"
  alloc_result :: "SIZE_T \<Rightarrow> (nat \<Rightarrow> BYTE list option) \<Rightarrow> (nat \<times> (nat \<Rightarrow> BYTE)) option"
  create_result :: "UINT32 \<Rightarrow> 'm \<Rightarrow> 'e option"
  modexp_result :: "'m \<Rightarrow> 'e \<Rightarrow> 'i \<Rightarrow> UINT32 \<Rightarrow> UINT32 \<Rightarrow> SIZE_T \<Rightarrow> 'e \<times> (nat \<Rightarrow> BYTE)"
  getvalue_result :: "'m \<Rightarrow> 'e \<Rightarrow> SIZE_T \<Rightarrow> SYMCRYPT_NUMBER_FORMAT \<Rightarrow> SIZE_T
                        \<Rightarrow> SYMCRYPT_ERROR \<times> (nat \<Rightarrow> BYTE) \<times> (nat \<Rightarrow> BYTE)"

subsection \<open>Memory effects\<close>

text \<open>
  \<open>store_bytes off len img buf\<close> writes \<open>len\<close> bytes at offset \<open>off\<close> of the
  buffer \<open>buf\<close>; the buffer keeps its extent.
\<close>

definition store_bytes :: "nat \<Rightarrow> nat \<Rightarrow> (nat \<Rightarrow> BYTE) \<Rightarrow> BYTE list \<Rightarrow> BYTE list" where
  "store_bytes off len img buf =
     map (\<lambda>i. if off \<le> i \<and> i < off + len then img (i - off) else buf ! i) [0..<length buf]"

definition write_heap ::
  "PBYTE \<Rightarrow> nat \<Rightarrow> (nat \<Rightarrow> BYTE) \<Rightarrow> (nat \<Rightarrow> BYTE list option) \<Rightarrow> (nat \<Rightarrow> BYTE list option)" where
  "write_heap pb len img h =
     (case pb of
        None \<Rightarrow> h
      | Some (b, off) \<Rightarrow>
          (case h b of None \<Rightarrow> h | Some buf \<Rightarrow> h(b \<mapsto> store_bytes off len img buf)))"

definition log_call :: "('m, 'e, 'i) call \<Rightarrow> ('m, 'e, 'i) state \<Rightarrow> ('m, 'e, 'i) state" where
  "log_call c s = s\<lparr>calls := calls s @ [c]\<rparr>"

text \<open>
  The allocator callback: NULL, or a block of \<open>nBytes\<close> bytes that hold whatever the
  allocator left in them.
\<close>

definition SymCryptCallbackAlloc ::
  "('m, 'e, 'i) engine \<Rightarrow> SIZE_T \<Rightarrow> ('m, 'e, 'i) state \<Rightarrow> PBYTE \<times> ('m, 'e, 'i) state" where
  "SymCryptCallbackAlloc E nBytes s =
     (case alloc_result E nBytes (heap s) of
        None \<Rightarrow> (None, log_call (Call_CallbackAlloc nBytes None) s)
      | Some (b, img) \<Rightarrow>
          (Some (b, 0),
           log_call (Call_CallbackAlloc nBytes (Some (b, 0)))
             (s\<lparr>heap := (heap s)(b \<mapsto> map img [0..<unat nBytes])\<rparr>)))"

text \<open>
  Modelled from the spec: \<open>SymCryptWipe\<close> and \<open>SymCryptCallbackFree\<close> are not in
  \<open>dh.c\<close>. The spec names them as the zero and free of a byte-allocate/zero/free
  triplet: the wipe overwrites \<open>cbData\<close> bytes from \<open>pbData\<close> with zero, the free
  releases the block. The model of the free also notes what the block held when it
  went.
\<close>

definition SymCryptWipe :: "PBYTE \<Rightarrow> SIZE_T \<Rightarrow> ('m, 'e, 'i) state \<Rightarrow> ('m, 'e, 'i) state" where
  "SymCryptWipe pbData cbData s =
     log_call (Call_Wipe pbData cbData)
       (s\<lparr>heap := write_heap pbData (unat cbData) (\<lambda>i. 0) (heap s)\<rparr>)"

definition SymCryptCallbackFree :: "PBYTE \<Rightarrow> ('m, 'e, 'i) state \<Rightarrow> ('m, 'e, 'i) state" where
  "SymCryptCallbackFree pMem s =
     log_call (Call_CallbackFree pMem)
       (case pMem of
          None \<Rightarrow> s
        | Some (b, off) \<Rightarrow>
            (case heap s b of
               None \<Rightarrow> s
             | Some buf \<Rightarrow> s\<lparr>heap := (heap s)(b := None), released := released s @ [(b, buf)]\<rparr>))"

text \<open>The arithmetic primitives, with their effect on the memory they are handed.\<close>

definition SymCryptModElementCreate ::
  "('m, 'e, 'i) engine \<Rightarrow> PBYTE \<Rightarrow> UINT32 \<Rightarrow> 'm \<Rightarrow> ('m, 'e, 'i) state
     \<Rightarrow> 'e option \<times> ('m, 'e, 'i) state" where
  "SymCryptModElementCreate E pbBuffer cbBuffer pmMod s =
     (let r = create_result E cbBuffer pmMod
      in (r, log_call (Call_ModElementCreate pbBuffer cbBuffer pmMod r) s))"

definition SymCryptModExp ::
  "('m, 'e, 'i) engine \<Rightarrow> 'm \<Rightarrow> 'e \<Rightarrow> 'i \<Rightarrow> UINT32 \<Rightarrow> UINT32 \<Rightarrow> PBYTE \<Rightarrow> PBYTE \<Rightarrow> SIZE_T
     \<Rightarrow> ('m, 'e, 'i) state \<Rightarrow> 'e \<times> ('m, 'e, 'i) state" where
  "SymCryptModExp E pmMod peBase piExp nBitsExp flags pbDst pbScratch cbScratch s =
     (let (r, img) = modexp_result E pmMod peBase piExp nBitsExp flags cbScratch;
          cbDst = unat (SymCryptSizeofModElementFromModulus E pmMod)
      in (r,
          log_call (Call_ModExp pmMod peBase piExp nBitsExp flags pbScratch cbScratch r)
            (s\<lparr>heap := write_heap pbDst (cbDst + unat cbScratch) img (heap s)\<rparr>)))"

definition SymCryptModElementGetValue ::
  "('m, 'e, 'i) engine \<Rightarrow> 'm \<Rightarrow> 'e \<Rightarrow> SIZE_T \<Rightarrow> SYMCRYPT_NUMBER_FORMAT \<Rightarrow> PBYTE \<Rightarrow> SIZE_T
     \<Rightarrow> ('m, 'e, 'i) state \<Rightarrow> SYMCRYPT_ERROR \<times> ('m, 'e, 'i) state" where
  "SymCryptModElementGetValue E pmMod peSrc cbDst format pbScratch cbScratch s =
     (let (scError, out, img) = getvalue_result E pmMod peSrc cbDst format cbScratch
      in (scError,
          log_call (Call_ModElementGetValue pmMod peSrc cbDst format pbScratch cbScratch scError)
            (s\<lparr>heap := write_heap pbScratch (unat cbScratch) img (heap s),
               pbAgreedSecret := store_bytes 0 (unat cbDst) out (pbAgreedSecret s)\<rparr>)))"

subsection \<open>The function\<close>

text \<open>
  A call either returns a status or stops at \<open>SYMCRYPT_ASSERT( peRes != NULL )\<close>.
\<close>

datatype outcome = Returned SYMCRYPT_ERROR | AssertFailed

text \<open>Modelled from the spec: the macro \<open>SYMCRYPT_MAX\<close> is "the larger of" its arguments.\<close>

definition SYMCRYPT_MAX :: "UINT32 \<Rightarrow> UINT32 \<Rightarrow> UINT32" where
  "SYMCRYPT_MAX a b = (if a < b then b else a)"

text \<open>
  The label \<open>cleanup\<close> (lines 199 to 206), with the values \<open>pbScratch\<close>,
  \<open>cbScratch\<close> and \<open>scError\<close> have when control gets there.
\<close>

definition cleanup ::
  "PBYTE \<Rightarrow> SIZE_T \<Rightarrow> SYMCRYPT_ERROR \<Rightarrow> ('m, 'e, 'i) state \<Rightarrow> outcome \<times> ('m, 'e, 'i) state" where
  "cleanup pbScratch cbScratch scError s =
     (if pbScratch \<noteq> None
      then (Returned scError, SymCryptCallbackFree pbScratch (SymCryptWipe pbScratch cbScratch s))
      else (Returned scError, s))"

text \<open>
  The function, lines 86 to 207. Each \<open>goto cleanup\<close> is a call of \<open>cleanup\<close>;
  before the allocation \<open>pbScratch\<close> is still NULL and \<open>cbScratch\<close> still 0, as
  initialised. \<open>peRes\<close> is created at \<open>pbScratchInternal\<close> before that pointer is
  advanced, so it points to the start of the scratch block: the model keeps in
  \<open>peRes\<close> and \<open>eRes\<close> the element that is there, and hands \<open>pbScratch\<close> to
  the exponentiation as the place of its result.
\<close>

definition SymCryptDhSecretAgreement ::
  "('m, 'e, 'i) engine \<Rightarrow> ('m, 'e, 'i) SYMCRYPT_DLKEY \<Rightarrow> ('m, 'e, 'i) SYMCRYPT_DLKEY
     \<Rightarrow> SYMCRYPT_NUMBER_FORMAT \<Rightarrow> UINT32 \<Rightarrow> SIZE_T \<Rightarrow> ('m, 'e, 'i) state
     \<Rightarrow> outcome \<times> ('m, 'e, 'i) state" where
  "SymCryptDhSecretAgreement E pkPrivate pkPublic format flags cbAgreedSecret s =
     (if flags \<noteq> 0 \<or> \<not> fHasPrivateKey pkPrivate
      then cleanup None 0 SYMCRYPT_INVALID_ARGUMENT s
      else if \<not> SymCryptDlgroupIsSame E (pDlgroup pkPrivate) (pDlgroup pkPublic)
      then cleanup None 0 SYMCRYPT_INVALID_ARGUMENT s
      else
        let pDlgroup' = pDlgroup pkPrivate in
        if cbAgreedSecret \<noteq> ucast (SymCryptDlkeySizeofPublicKey E pkPrivate)
        then cleanup None 0 SYMCRYPT_WRONG_BLOCK_SIZE s
        else
          let cbModelement = SymCryptSizeofModElementFromModulus E (pmP pDlgroup');
              cbScratch = ucast (cbModelement +
                            SYMCRYPT_MAX (SYMCRYPT_SCRATCH_BYTES_FOR_MODEXP E (nDigitsOfP pDlgroup'))
                              (SYMCRYPT_SCRATCH_BYTES_FOR_COMMON_MOD_OPERATIONS E (nDigitsOfP pDlgroup')));
              (pbScratch, s1) = SymCryptCallbackAlloc E cbScratch s
          in
          if pbScratch = None
          then cleanup pbScratch cbScratch SYMCRYPT_MEMORY_ALLOCATION_FAILURE s1
          else
            let pbScratchInternal = pbScratch;
                cbScratchInternal = cbScratch;
                (peRes, s2) = SymCryptModElementCreate E pbScratchInternal cbModelement (pmP pDlgroup') s1;
                pbScratchInternal = ptr_add pbScratchInternal (unat cbModelement);
                cbScratchInternal = cbScratchInternal - ucast cbModelement
            in
            if peRes = None
            then (AssertFailed, s2)
            else
              let nBitsOfExp = (if fPrivateModQ pkPrivate then nBitsPriv pkPrivate
                                else nBitsOfP pDlgroup');
                  (eRes, s3) = SymCryptModExp E (pmP pDlgroup') (pePublicKey pkPublic)
                                 (piPrivateKey pkPrivate) nBitsOfExp 0 pbScratch
                                 pbScratchInternal cbScratchInternal s2;
                  isZero = SymCryptModElementIsZero E (pmP pDlgroup') eRes;
                  s4 = log_call (Call_ModElementIsZero (pmP pDlgroup') eRes isZero) s3
              in
              if isZero
              then cleanup pbScratch cbScratch SYMCRYPT_INVALID_BLOB s4
              else
                let (scError, s5) = SymCryptModElementGetValue E (pmP pDlgroup') eRes cbAgreedSecret
                                      format pbScratchInternal cbScratchInternal s4
                in cleanup pbScratch cbScratch scError s5)"

text \<open>The calls one run of the function added to the record.\<close>

definition calls_of :: "('m, 'e, 'i) state \<Rightarrow> ('m, 'e, 'i) state \<Rightarrow> ('m, 'e, 'i) call list" where
  "calls_of s s' = drop (length (calls s)) (calls s')"


subsection \<open>Names for the values the function computes on its way\<close>

text \<open>
  The four checks of lines 108 to 132, the two sizes of lines 135 to 138 and the
  exponent length of lines 158 to 165, each written as in the function.
\<close>

definition validated ::
  "('m, 'e, 'i) engine \<Rightarrow> ('m, 'e, 'i) SYMCRYPT_DLKEY \<Rightarrow> ('m, 'e, 'i) SYMCRYPT_DLKEY
     \<Rightarrow> UINT32 \<Rightarrow> SIZE_T \<Rightarrow> bool" where
  "validated E pkPrivate pkPublic flags cbAgreedSecret \<longleftrightarrow>
     flags = 0 \<and> fHasPrivateKey pkPrivate
     \<and> SymCryptDlgroupIsSame E (pDlgroup pkPrivate) (pDlgroup pkPublic)
     \<and> cbAgreedSecret = ucast (SymCryptDlkeySizeofPublicKey E pkPrivate)"

definition cbModelement_of :: "('m, 'e, 'i) engine \<Rightarrow> ('m, 'e, 'i) SYMCRYPT_DLKEY \<Rightarrow> UINT32" where
  "cbModelement_of E pkPrivate = SymCryptSizeofModElementFromModulus E (pmP (pDlgroup pkPrivate))"

definition cbScratch_of :: "('m, 'e, 'i) engine \<Rightarrow> ('m, 'e, 'i) SYMCRYPT_DLKEY \<Rightarrow> SIZE_T" where
  "cbScratch_of E pkPrivate =
     ucast (SymCryptSizeofModElementFromModulus E (pmP (pDlgroup pkPrivate)) +
            SYMCRYPT_MAX (SYMCRYPT_SCRATCH_BYTES_FOR_MODEXP E (nDigitsOfP (pDlgroup pkPrivate)))
              (SYMCRYPT_SCRATCH_BYTES_FOR_COMMON_MOD_OPERATIONS E (nDigitsOfP (pDlgroup pkPrivate))))"

definition nBitsOfExp_of :: "('m, 'e, 'i) SYMCRYPT_DLKEY \<Rightarrow> UINT32" where
  "nBitsOfExp_of pkPrivate =
     (if fPrivateModQ pkPrivate then nBitsPriv pkPrivate else nBitsOfP (pDlgroup pkPrivate))"

definition is_CallbackAlloc :: "('m, 'e, 'i) call \<Rightarrow> bool" where
  "is_CallbackAlloc c = (case c of Call_CallbackAlloc cb pb \<Rightarrow> True | _ \<Rightarrow> False)"

subsection \<open>The exponentiation, for the exchange itself\<close>

text \<open>
  Modelled from the spec: \<open>SymCryptModExp\<close> is not in \<open>dh.c\<close>. The spec gives it as
  "compute secret := publicElement ^ privateExponent mod P" by a routine in which
  "the bit-length parameter controls the number of square-and-multiply steps
  performed". Here the modulus, the element and the exponent are the natural numbers
  they stand for, and \<open>modexp_steps P b x n\<close> runs \<open>n\<close> square-and-multiply
  steps, one for each of the \<open>n\<close> low bits of \<open>x\<close>.
\<close>

fun modexp_steps :: "nat \<Rightarrow> nat \<Rightarrow> nat \<Rightarrow> nat \<Rightarrow> nat" where
  "modexp_steps P b x 0 = 1 mod P"
| "modexp_steps P b x (Suc n) =
     (let r = modexp_steps P b (x div 2) n
      in if odd x then r * r * b mod P else r * r mod P)"

subsection \<open>A small exchange\<close>

text \<open>
  The group of the prime 23 with generator 5, two parties with exponents 6 and 15
  (public elements 8 and 19, shared secret 2), and an engine that computes in it.
  The second group has the same modulus and another digit count.
\<close>

definition toy_group :: "nat SYMCRYPT_DLGROUP" where
  "toy_group = \<lparr>pmP = 23, nDigitsOfP = 1, nBitsOfP = 5\<rparr>"

definition toy_group2 :: "nat SYMCRYPT_DLGROUP" where
  "toy_group2 = \<lparr>pmP = 23, nDigitsOfP = 2, nBitsOfP = 5\<rparr>"

definition toy_keyA :: "(nat, nat, nat) SYMCRYPT_DLKEY" where
  "toy_keyA = \<lparr>fHasPrivateKey = True, fPrivateModQ = False, nBitsPriv = 0,
                pDlgroup = toy_group, pePublicKey = 8, piPrivateKey = 6\<rparr>"

definition toy_keyB :: "(nat, nat, nat) SYMCRYPT_DLKEY" where
  "toy_keyB = \<lparr>fHasPrivateKey = True, fPrivateModQ = True, nBitsPriv = 4,
                pDlgroup = toy_group, pePublicKey = 19, piPrivateKey = 15\<rparr>"

definition toy_keyC :: "(nat, nat, nat) SYMCRYPT_DLKEY" where
  "toy_keyC = \<lparr>fHasPrivateKey = True, fPrivateModQ = False, nBitsPriv = 0,
                pDlgroup = toy_group2, pePublicKey = 19, piPrivateKey = 15\<rparr>"

definition toy_keyZ :: "(nat, nat, nat) SYMCRYPT_DLKEY" where
  "toy_keyZ = \<lparr>fHasPrivateKey = False, fPrivateModQ = False, nBitsPriv = 0,
                pDlgroup = toy_group, pePublicKey = 0, piPrivateKey = 0\<rparr>"

definition toy_engine :: "(nat, nat, nat) engine" where
  "toy_engine =
     \<lparr>SymCryptDlgroupIsSame = (\<lambda>g h. g = h),
      SymCryptDlkeySizeofPublicKey = (\<lambda>k. 1),
      SymCryptSizeofModElementFromModulus = (\<lambda>P. 4),
      SYMCRYPT_SCRATCH_BYTES_FOR_MODEXP = (\<lambda>n. 8 * n + 16),
      SYMCRYPT_SCRATCH_BYTES_FOR_COMMON_MOD_OPERATIONS = (\<lambda>n. 8 * n),
      SymCryptModElementIsZero = (\<lambda>P e. e = 0),
      alloc_result = (\<lambda>cb h. if h 1 = None then Some (1, \<lambda>i. 170) else None),
      create_result = (\<lambda>cb P. if 4 \<le> cb then Some 0 else None),
      modexp_result = (\<lambda>P b x n f cb. (modexp_steps P b x (unat n), \<lambda>i. 85)),
      getvalue_result = (\<lambda>P e cb fmt cbS.
         if fmt = 2 then (SYMCRYPT_NO_ERROR, (\<lambda>i. of_nat (e div 256 ^ (unat cb - 1 - i))), \<lambda>i. 51)
         else (SYMCRYPT_OTHER_ERROR 13, (\<lambda>i. 0), \<lambda>i. 51))\<rparr>"

definition toy_state :: "(nat, nat, nat) state" where
  "toy_state = \<lparr>heap = (\<lambda>b. None), pbAgreedSecret = [255], released = [], calls = []\<rparr>"

text \<open>The same state with every block taken: the allocator has nothing to hand out.\<close>

definition toy_state_full :: "(nat, nat, nat) state" where
  "toy_state_full = \<lparr>heap = (\<lambda>b. Some []), pbAgreedSecret = [255], released = [], calls = []\<rparr>"

section \<open>Properties\<close>

subsection \<open>The paths through the function\<close>

lemma length_store_bytes [simp]: "length (store_bytes off len img buf) = length buf"
  by (simp add: store_bytes_def)

lemma store_bytes_zero_all:
  "length buf = n \<Longrightarrow> store_bytes 0 n (\<lambda>i. 0) buf = replicate n 0"
  by (auto simp: store_bytes_def list_eq_iff_nth_eq)

lemma calls_of_append [simp]: "calls s' = calls s @ cs \<Longrightarrow> calls_of s s' = cs"
  by (simp add: calls_of_def)


lemma write_heap_upd [simp]:
  "write_heap (Some (b, off)) len img (h(b \<mapsto> buf)) = h(b \<mapsto> store_bytes off len img buf)"
  by (simp add: write_heap_def)

lemma run_no_memory:
  assumes "validated E pkPrivate pkPublic flags cbAgreedSecret"
    and "alloc_result E (cbScratch_of E pkPrivate) (heap s) = None"
  shows "SymCryptDhSecretAgreement E pkPrivate pkPublic format flags cbAgreedSecret s =
    (Returned SYMCRYPT_MEMORY_ALLOCATION_FAILURE,
     log_call (Call_CallbackAlloc (cbScratch_of E pkPrivate) None) s)"
  using assms
  by (simp add: validated_def cbScratch_of_def SymCryptDhSecretAgreement_def cleanup_def
      SymCryptCallbackAlloc_def Let_def)

lemma run_assert_failed:
  assumes "validated E pkPrivate pkPublic flags cbAgreedSecret"
    and "alloc_result E (cbScratch_of E pkPrivate) (heap s) = Some (b, img)"
    and "create_result E (cbModelement_of E pkPrivate) (pmP (pDlgroup pkPrivate)) = None"
  shows "SymCryptDhSecretAgreement E pkPrivate pkPublic format flags cbAgreedSecret s =
    (AssertFailed,
     s\<lparr>heap := (heap s)(b \<mapsto> map img [0..<unat (cbScratch_of E pkPrivate)]),
       calls := calls s @
         [Call_CallbackAlloc (cbScratch_of E pkPrivate) (Some (b, 0)),
          Call_ModElementCreate (Some (b, 0)) (cbModelement_of E pkPrivate)
            (pmP (pDlgroup pkPrivate)) None]\<rparr>)"
  using assms
  by (simp add: validated_def cbScratch_of_def cbModelement_of_def SymCryptDhSecretAgreement_def
      SymCryptCallbackAlloc_def SymCryptModElementCreate_def log_call_def Let_def)

lemma run_zero_result:
  assumes "validated E pkPrivate pkPublic flags cbAgreedSecret"
    and "alloc_result E (cbScratch_of E pkPrivate) (heap s) = Some (b, img)"
    and "create_result E (cbModelement_of E pkPrivate) (pmP (pDlgroup pkPrivate)) = Some e0"
    and "modexp_result E (pmP (pDlgroup pkPrivate)) (pePublicKey pkPublic) (piPrivateKey pkPrivate)
       (nBitsOfExp_of pkPrivate) 0 (cbScratch_of E pkPrivate - ucast (cbModelement_of E pkPrivate))
       = (r, img')"
    and "SymCryptModElementIsZero E (pmP (pDlgroup pkPrivate)) r"
  shows "SymCryptDhSecretAgreement E pkPrivate pkPublic format flags cbAgreedSecret s =
    (Returned SYMCRYPT_INVALID_BLOB,
     s\<lparr>heap := (heap s)(b := None),
       released := released s @ [(b, replicate (unat (cbScratch_of E pkPrivate)) 0)],
       calls := calls s @
       [Call_CallbackAlloc (cbScratch_of E pkPrivate) (Some (b, 0)),
        Call_ModElementCreate (Some (b, 0)) (cbModelement_of E pkPrivate) (pmP (pDlgroup pkPrivate)) (Some e0),
        Call_ModExp (pmP (pDlgroup pkPrivate)) (pePublicKey pkPublic) (piPrivateKey pkPrivate)
          (nBitsOfExp_of pkPrivate) 0 (Some (b, unat (cbModelement_of E pkPrivate)))
          (cbScratch_of E pkPrivate - ucast (cbModelement_of E pkPrivate)) r,
        Call_ModElementIsZero (pmP (pDlgroup pkPrivate)) r True,
        Call_Wipe (Some (b, 0)) (cbScratch_of E pkPrivate),
        Call_CallbackFree (Some (b, 0))]\<rparr>)"
  using assms
  by (simp add: validated_def cbScratch_of_def cbModelement_of_def nBitsOfExp_of_def
      SymCryptDhSecretAgreement_def cleanup_def SymCryptCallbackAlloc_def
      SymCryptModElementCreate_def SymCryptModExp_def SymCryptWipe_def SymCryptCallbackFree_def
      log_call_def ptr_add_def Let_def store_bytes_zero_all)

lemma run_encoded:
  assumes "validated E pkPrivate pkPublic flags cbAgreedSecret"
    and "alloc_result E (cbScratch_of E pkPrivate) (heap s) = Some (b, img)"
    and "create_result E (cbModelement_of E pkPrivate) (pmP (pDlgroup pkPrivate)) = Some e0"
    and "modexp_result E (pmP (pDlgroup pkPrivate)) (pePublicKey pkPublic) (piPrivateKey pkPrivate)
       (nBitsOfExp_of pkPrivate) 0 (cbScratch_of E pkPrivate - ucast (cbModelement_of E pkPrivate))
       = (r, img')"
    and "\<not> SymCryptModElementIsZero E (pmP (pDlgroup pkPrivate)) r"
    and "getvalue_result E (pmP (pDlgroup pkPrivate)) r cbAgreedSecret format
       (cbScratch_of E pkPrivate - ucast (cbModelement_of E pkPrivate)) = (st, outb, img'')"
  shows "SymCryptDhSecretAgreement E pkPrivate pkPublic format flags cbAgreedSecret s =
    (Returned st,
     s\<lparr>heap := (heap s)(b := None),
       pbAgreedSecret := store_bytes 0 (unat cbAgreedSecret) outb (pbAgreedSecret s),
       released := released s @ [(b, replicate (unat (cbScratch_of E pkPrivate)) 0)],
       calls := calls s @
       [Call_CallbackAlloc (cbScratch_of E pkPrivate) (Some (b, 0)),
        Call_ModElementCreate (Some (b, 0)) (cbModelement_of E pkPrivate) (pmP (pDlgroup pkPrivate)) (Some e0),
        Call_ModExp (pmP (pDlgroup pkPrivate)) (pePublicKey pkPublic) (piPrivateKey pkPrivate)
          (nBitsOfExp_of pkPrivate) 0 (Some (b, unat (cbModelement_of E pkPrivate)))
          (cbScratch_of E pkPrivate - ucast (cbModelement_of E pkPrivate)) r,
        Call_ModElementIsZero (pmP (pDlgroup pkPrivate)) r False,
        Call_ModElementGetValue (pmP (pDlgroup pkPrivate)) r cbAgreedSecret format
          (Some (b, unat (cbModelement_of E pkPrivate)))
          (cbScratch_of E pkPrivate - ucast (cbModelement_of E pkPrivate)) st,
        Call_Wipe (Some (b, 0)) (cbScratch_of E pkPrivate),
        Call_CallbackFree (Some (b, 0))]\<rparr>)"
  using assms
  by (simp add: validated_def cbScratch_of_def cbModelement_of_def nBitsOfExp_of_def
      SymCryptDhSecretAgreement_def cleanup_def SymCryptCallbackAlloc_def
      SymCryptModElementCreate_def SymCryptModExp_def SymCryptModElementGetValue_def
      SymCryptWipe_def SymCryptCallbackFree_def
      log_call_def ptr_add_def Let_def store_bytes_zero_all)

lemma agreement_cases [consumes 1,
    case_names invalid_argument wrong_size no_memory assert_failed zero_result encoded]:
  fixes E :: "('m, 'e, 'i) engine"
  assumes run: "SymCryptDhSecretAgreement E pkPrivate pkPublic format flags cbAgreedSecret s = (out, s')"
  obtains
    "flags \<noteq> 0 \<or> \<not> fHasPrivateKey pkPrivate
       \<or> \<not> SymCryptDlgroupIsSame E (pDlgroup pkPrivate) (pDlgroup pkPublic)"
    "out = Returned SYMCRYPT_INVALID_ARGUMENT" "s' = s"
  | "flags = 0" "fHasPrivateKey pkPrivate"
    "SymCryptDlgroupIsSame E (pDlgroup pkPrivate) (pDlgroup pkPublic)"
    "cbAgreedSecret \<noteq> ucast (SymCryptDlkeySizeofPublicKey E pkPrivate)"
    "out = Returned SYMCRYPT_WRONG_BLOCK_SIZE" "s' = s"
  | "validated E pkPrivate pkPublic flags cbAgreedSecret"
    "alloc_result E (cbScratch_of E pkPrivate) (heap s) = None"
    "out = Returned SYMCRYPT_MEMORY_ALLOCATION_FAILURE"
    "s' = log_call (Call_CallbackAlloc (cbScratch_of E pkPrivate) None) s"
  | b img where
    "validated E pkPrivate pkPublic flags cbAgreedSecret"
    "alloc_result E (cbScratch_of E pkPrivate) (heap s) = Some (b, img)"
    "create_result E (cbModelement_of E pkPrivate) (pmP (pDlgroup pkPrivate)) = None"
    "out = AssertFailed"
    "calls s' = calls s @
       [Call_CallbackAlloc (cbScratch_of E pkPrivate) (Some (b, 0)),
        Call_ModElementCreate (Some (b, 0)) (cbModelement_of E pkPrivate) (pmP (pDlgroup pkPrivate)) None]"
  | b img e0 r img' where
    "validated E pkPrivate pkPublic flags cbAgreedSecret"
    "alloc_result E (cbScratch_of E pkPrivate) (heap s) = Some (b, img)"
    "create_result E (cbModelement_of E pkPrivate) (pmP (pDlgroup pkPrivate)) = Some e0"
    "modexp_result E (pmP (pDlgroup pkPrivate)) (pePublicKey pkPublic) (piPrivateKey pkPrivate)
       (nBitsOfExp_of pkPrivate) 0 (cbScratch_of E pkPrivate - ucast (cbModelement_of E pkPrivate))
       = (r, img')"
    "SymCryptModElementIsZero E (pmP (pDlgroup pkPrivate)) r"
    "out = Returned SYMCRYPT_INVALID_BLOB"
    "calls s' = calls s @
       [Call_CallbackAlloc (cbScratch_of E pkPrivate) (Some (b, 0)),
        Call_ModElementCreate (Some (b, 0)) (cbModelement_of E pkPrivate) (pmP (pDlgroup pkPrivate)) (Some e0),
        Call_ModExp (pmP (pDlgroup pkPrivate)) (pePublicKey pkPublic) (piPrivateKey pkPrivate)
          (nBitsOfExp_of pkPrivate) 0 (Some (b, unat (cbModelement_of E pkPrivate)))
          (cbScratch_of E pkPrivate - ucast (cbModelement_of E pkPrivate)) r,
        Call_ModElementIsZero (pmP (pDlgroup pkPrivate)) r True,
        Call_Wipe (Some (b, 0)) (cbScratch_of E pkPrivate),
        Call_CallbackFree (Some (b, 0))]"
    "heap s' = (heap s)(b := None)"
    "released s' = released s @ [(b, replicate (unat (cbScratch_of E pkPrivate)) 0)]"
    "pbAgreedSecret s' = pbAgreedSecret s"
  | b img e0 r img' st outb img'' where
    "validated E pkPrivate pkPublic flags cbAgreedSecret"
    "alloc_result E (cbScratch_of E pkPrivate) (heap s) = Some (b, img)"
    "create_result E (cbModelement_of E pkPrivate) (pmP (pDlgroup pkPrivate)) = Some e0"
    "modexp_result E (pmP (pDlgroup pkPrivate)) (pePublicKey pkPublic) (piPrivateKey pkPrivate)
       (nBitsOfExp_of pkPrivate) 0 (cbScratch_of E pkPrivate - ucast (cbModelement_of E pkPrivate))
       = (r, img')"
    "\<not> SymCryptModElementIsZero E (pmP (pDlgroup pkPrivate)) r"
    "getvalue_result E (pmP (pDlgroup pkPrivate)) r cbAgreedSecret format
       (cbScratch_of E pkPrivate - ucast (cbModelement_of E pkPrivate)) = (st, outb, img'')"
    "out = Returned st"
    "calls s' = calls s @
       [Call_CallbackAlloc (cbScratch_of E pkPrivate) (Some (b, 0)),
        Call_ModElementCreate (Some (b, 0)) (cbModelement_of E pkPrivate) (pmP (pDlgroup pkPrivate)) (Some e0),
        Call_ModExp (pmP (pDlgroup pkPrivate)) (pePublicKey pkPublic) (piPrivateKey pkPrivate)
          (nBitsOfExp_of pkPrivate) 0 (Some (b, unat (cbModelement_of E pkPrivate)))
          (cbScratch_of E pkPrivate - ucast (cbModelement_of E pkPrivate)) r,
        Call_ModElementIsZero (pmP (pDlgroup pkPrivate)) r False,
        Call_ModElementGetValue (pmP (pDlgroup pkPrivate)) r cbAgreedSecret format
          (Some (b, unat (cbModelement_of E pkPrivate)))
          (cbScratch_of E pkPrivate - ucast (cbModelement_of E pkPrivate)) st,
        Call_Wipe (Some (b, 0)) (cbScratch_of E pkPrivate),
        Call_CallbackFree (Some (b, 0))]"
    "heap s' = (heap s)(b := None)"
    "released s' = released s @ [(b, replicate (unat (cbScratch_of E pkPrivate)) 0)]"
    "pbAgreedSecret s' = store_bytes 0 (unat cbAgreedSecret) outb (pbAgreedSecret s)"
proof -
  let ?cbM = "cbModelement_of E pkPrivate" and ?cbS = "cbScratch_of E pkPrivate"
  let ?pm = "pmP (pDlgroup pkPrivate)"
  show thesis
  proof (cases "validated E pkPrivate pkPublic flags cbAgreedSecret")
    case False
    then show thesis
      using run that(1,2)
      by (auto simp: validated_def SymCryptDhSecretAgreement_def cleanup_def Let_def split: if_splits)
  next
    case v: True
    show thesis
    proof (cases "alloc_result E ?cbS (heap s)")
      case None
      then show thesis
        using run v that(3) by (auto simp: run_no_memory)
    next
      case (Some a)
      obtain b img where a: "alloc_result E ?cbS (heap s) = Some (b, img)"
        using Some by (cases a) auto
      show thesis
      proof (cases "create_result E ?cbM ?pm")
        case None
        then show thesis
          using run v a that(4) by (auto simp: run_assert_failed)
      next
        case (Some e0)
        obtain r img' where m: "modexp_result E ?pm (pePublicKey pkPublic) (piPrivateKey pkPrivate)
            (nBitsOfExp_of pkPrivate) 0 (?cbS - ucast ?cbM) = (r, img')"
          by (cases "modexp_result E ?pm (pePublicKey pkPublic) (piPrivateKey pkPrivate)
            (nBitsOfExp_of pkPrivate) 0 (?cbS - ucast ?cbM)") auto
        show thesis
        proof (cases "SymCryptModElementIsZero E ?pm r")
          case True
          then show thesis
            using run v a Some m that(5) [of b img e0 r img'] by (auto simp: run_zero_result)
        next
          case False
          obtain st outb img'' where g: "getvalue_result E ?pm r cbAgreedSecret format
              (?cbS - ucast ?cbM) = (st, outb, img'')"
            by (cases "getvalue_result E ?pm r cbAgreedSecret format (?cbS - ucast ?cbM)") auto
          show thesis
            using run v a Some m False g that(6) [of b img e0 r img' st outb img'']
            by (auto simp: run_encoded)
        qed
      qed
    qed
  qed
qed

subsection \<open>The exponentiation steps compute the power\<close>

lemma modexp_steps_power: "modexp_steps P b x n = b ^ (x mod 2 ^ n) mod P"
proof (induction n arbitrary: x)
  case 0
  show ?case by simp
next
  case (Suc n)
  let ?k = "x div 2 mod 2 ^ n"
  have split: "x mod 2 ^ Suc n = 2 * ?k + x mod 2"
    by (simp add: mod_mult2_eq)
  have even_step: "(b ^ ?k mod P) * (b ^ ?k mod P) mod P = b ^ (2 * ?k) mod P"
    by (simp add: mod_simps mult_2 power_add)
  have odd_step: "(b ^ ?k mod P) * (b ^ ?k mod P) * b mod P = b ^ Suc (2 * ?k) mod P"
  proof -
    have "(b ^ ?k mod P) * (b ^ ?k mod P) * b mod P
            = ((b ^ ?k mod P) * (b ^ ?k mod P) mod P) * b mod P"
      by (rule mod_mult_left_eq [symmetric])
    also have "\<dots> = (b ^ (2 * ?k) mod P) * b mod P"
      by (simp only: even_step)
    also have "\<dots> = b ^ (2 * ?k) * b mod P"
      by (rule mod_mult_left_eq)
    finally show ?thesis
      by (simp add: mult.commute)
  qed
  show ?case
  proof (cases "odd x")
    case True
    then have "x mod 2 = 1" by (simp add: odd_iff_mod_2_eq_one)
    with split have "x mod 2 ^ Suc n = Suc (2 * ?k)" by simp
    with True odd_step show ?thesis
      by (simp add: Suc.IH Let_def)
  next
    case False
    then have "x mod 2 = 0" by simp
    with split have "x mod 2 ^ Suc n = 2 * ?k" by simp
    with False even_step show ?thesis
      by (simp add: Suc.IH Let_def)
  qed
qed

lemma modexp_steps_fits: "x < 2 ^ n \<Longrightarrow> modexp_steps P b x n = b ^ x mod P"
  by (simp add: modexp_steps_power)

subsection \<open>The small exchange, computed\<close>

lemma toy_validated:
  "fHasPrivateKey k \<Longrightarrow> pDlgroup k = pDlgroup k' \<Longrightarrow> validated toy_engine k k' 0 1"
  by (simp add: validated_def toy_engine_def)

lemma toy_cbScratch: "pDlgroup k = toy_group \<Longrightarrow> cbScratch_of toy_engine k = 28"
  by (simp add: cbScratch_of_def toy_engine_def toy_group_def SYMCRYPT_MAX_def)

lemma toy_cbModelement: "cbModelement_of toy_engine k = 4"
  by (simp add: cbModelement_of_def toy_engine_def)

lemma toy_run_nonzero:
  assumes "fHasPrivateKey k" and "pDlgroup k = toy_group" and "pDlgroup k' = toy_group"
    and "modexp_steps 23 (pePublicKey k') (piPrivateKey k) (unat (nBitsOfExp_of k)) = r"
    and "r \<noteq> 0"
  shows "SymCryptDhSecretAgreement toy_engine k k' fmt 0 1 toy_state =
    (Returned (if fmt = 2 then SYMCRYPT_NO_ERROR else SYMCRYPT_OTHER_ERROR 13),
     \<lparr>heap = (\<lambda>b. None), pbAgreedSecret = [if fmt = 2 then of_nat r else 0],
      released = [(1, replicate 28 0)],
      calls = [Call_CallbackAlloc 28 (Some (1, 0)),
               Call_ModElementCreate (Some (1, 0)) 4 23 (Some 0),
               Call_ModExp 23 (pePublicKey k') (piPrivateKey k) (nBitsOfExp_of k) 0 (Some (1, 4)) 24 r,
               Call_ModElementIsZero 23 r False,
               Call_ModElementGetValue 23 r 1 fmt (Some (1, 4)) 24
                 (if fmt = 2 then SYMCRYPT_NO_ERROR else SYMCRYPT_OTHER_ERROR 13),
               Call_Wipe (Some (1, 0)) 28,
               Call_CallbackFree (Some (1, 0))]\<rparr>)"
proof -
  have v: "validated toy_engine k k' 0 1"
    using assms by (simp add: toy_validated)
  have a: "alloc_result toy_engine (cbScratch_of toy_engine k) (heap toy_state) = Some (1, \<lambda>i. 170)"
    by (simp add: toy_engine_def toy_state_def)
  have c: "create_result toy_engine (cbModelement_of toy_engine k) (pmP (pDlgroup k)) = Some 0"
    unfolding toy_cbModelement by (simp add: toy_engine_def)
  have m: "modexp_result toy_engine (pmP (pDlgroup k)) (pePublicKey k') (piPrivateKey k)
       (nBitsOfExp_of k) 0 (cbScratch_of toy_engine k - ucast (cbModelement_of toy_engine k))
       = (r, \<lambda>i. 85)"
    using assms by (simp add: toy_engine_def toy_group_def)
  have z: "\<not> SymCryptModElementIsZero toy_engine (pmP (pDlgroup k)) r"
    using assms by (simp add: toy_engine_def)
  have g: "getvalue_result toy_engine (pmP (pDlgroup k)) r 1 fmt
       (cbScratch_of toy_engine k - ucast (cbModelement_of toy_engine k))
       = (if fmt = 2 then SYMCRYPT_NO_ERROR else SYMCRYPT_OTHER_ERROR 13,
          (\<lambda>i. if fmt = 2 then of_nat (r div 256 ^ (0 - i)) else 0), \<lambda>i. 51)"
    by (simp add: toy_engine_def)
  show ?thesis
    unfolding run_encoded [OF v a c m z g]
    using assms by (simp add: toy_cbScratch toy_cbModelement toy_state_def toy_group_def store_bytes_def)
qed

lemma toy_run_zero:
  assumes "fHasPrivateKey k" and "pDlgroup k = toy_group" and "pDlgroup k' = toy_group"
    and "modexp_steps 23 (pePublicKey k') (piPrivateKey k) (unat (nBitsOfExp_of k)) = 0"
  shows "SymCryptDhSecretAgreement toy_engine k k' fmt 0 1 toy_state =
    (Returned SYMCRYPT_INVALID_BLOB,
     \<lparr>heap = (\<lambda>b. None), pbAgreedSecret = [255],
      released = [(1, replicate 28 0)],
      calls = [Call_CallbackAlloc 28 (Some (1, 0)),
               Call_ModElementCreate (Some (1, 0)) 4 23 (Some 0),
               Call_ModExp 23 (pePublicKey k') (piPrivateKey k) (nBitsOfExp_of k) 0 (Some (1, 4)) 24 0,
               Call_ModElementIsZero 23 0 True,
               Call_Wipe (Some (1, 0)) 28,
               Call_CallbackFree (Some (1, 0))]\<rparr>)"
proof -
  have v: "validated toy_engine k k' 0 1"
    using assms by (simp add: toy_validated)
  have a: "alloc_result toy_engine (cbScratch_of toy_engine k) (heap toy_state) = Some (1, \<lambda>i. 170)"
    by (simp add: toy_engine_def toy_state_def)
  have c: "create_result toy_engine (cbModelement_of toy_engine k) (pmP (pDlgroup k)) = Some 0"
    unfolding toy_cbModelement by (simp add: toy_engine_def)
  have m: "modexp_result toy_engine (pmP (pDlgroup k)) (pePublicKey k') (piPrivateKey k)
       (nBitsOfExp_of k) 0 (cbScratch_of toy_engine k - ucast (cbModelement_of toy_engine k))
       = (0, \<lambda>i. 85)"
    using assms by (simp add: toy_engine_def toy_group_def)
  have z: "SymCryptModElementIsZero toy_engine (pmP (pDlgroup k)) 0"
    by (simp add: toy_engine_def)
  show ?thesis
    unfolding run_zero_result [OF v a c m z]
    using assms by (simp add: toy_cbScratch toy_cbModelement toy_state_def toy_group_def)
qed

lemma toy_nBits: "nBitsOfExp_of toy_keyA = 5" "nBitsOfExp_of toy_keyB = 4"
    "nBitsOfExp_of (toy_keyA\<lparr>piPrivateKey := x\<rparr>) = 5"
  by (simp_all add: nBitsOfExp_of_def toy_keyA_def toy_keyB_def toy_group_def)

lemma toy_powers:
  "modexp_steps 23 19 6 5 = 2" "modexp_steps 23 8 15 4 = 2" "modexp_steps 23 19 3 5 = 5"
  "modexp_steps 23 0 6 5 = 0" "modexp_steps 23 0 0 5 = 1"
  by (simp_all add: modexp_steps_fits)

lemma toy_fields:
  "fHasPrivateKey toy_keyA" "pDlgroup toy_keyA = toy_group"
  "pePublicKey toy_keyA = 8" "piPrivateKey toy_keyA = 6"
  "fHasPrivateKey toy_keyB" "pDlgroup toy_keyB = toy_group"
  "pePublicKey toy_keyB = 19" "piPrivateKey toy_keyB = 15"
  "pDlgroup toy_keyZ = toy_group" "pePublicKey toy_keyZ = 0"
  by (simp_all add: toy_keyA_def toy_keyB_def toy_keyZ_def)

lemma toy_state_fields:
  "calls toy_state = []" "released toy_state = []" "pbAgreedSecret toy_state = [255]"
  by (simp_all add: toy_state_def)

lemma toy_run_AB:
  "SymCryptDhSecretAgreement toy_engine toy_keyA toy_keyB 2 0 1 toy_state =
    (Returned SYMCRYPT_NO_ERROR,
     \<lparr>heap = (\<lambda>b. None), pbAgreedSecret = [2], released = [(1, replicate 28 0)],
      calls = [Call_CallbackAlloc 28 (Some (1, 0)),
               Call_ModElementCreate (Some (1, 0)) 4 23 (Some 0),
               Call_ModExp 23 19 6 5 0 (Some (1, 4)) 24 2,
               Call_ModElementIsZero 23 2 False,
               Call_ModElementGetValue 23 2 1 2 (Some (1, 4)) 24 SYMCRYPT_NO_ERROR,
               Call_Wipe (Some (1, 0)) 28,
               Call_CallbackFree (Some (1, 0))]\<rparr>)"
  by (subst toy_run_nonzero [where r = 2])
     (simp_all add: toy_nBits toy_fields toy_powers)

lemma toy_run_BA:
  "SymCryptDhSecretAgreement toy_engine toy_keyB toy_keyA 2 0 1 toy_state =
    (Returned SYMCRYPT_NO_ERROR,
     \<lparr>heap = (\<lambda>b. None), pbAgreedSecret = [2], released = [(1, replicate 28 0)],
      calls = [Call_CallbackAlloc 28 (Some (1, 0)),
               Call_ModElementCreate (Some (1, 0)) 4 23 (Some 0),
               Call_ModExp 23 8 15 4 0 (Some (1, 4)) 24 2,
               Call_ModElementIsZero 23 2 False,
               Call_ModElementGetValue 23 2 1 2 (Some (1, 4)) 24 SYMCRYPT_NO_ERROR,
               Call_Wipe (Some (1, 0)) 28,
               Call_CallbackFree (Some (1, 0))]\<rparr>)"
  by (subst toy_run_nonzero [where r = 2])
     (simp_all add: toy_nBits toy_fields toy_powers)

lemma toy_run_A3B:
  "SymCryptDhSecretAgreement toy_engine (toy_keyA\<lparr>piPrivateKey := 3\<rparr>) toy_keyB 2 0 1 toy_state =
    (Returned SYMCRYPT_NO_ERROR,
     \<lparr>heap = (\<lambda>b. None), pbAgreedSecret = [5], released = [(1, replicate 28 0)],
      calls = [Call_CallbackAlloc 28 (Some (1, 0)),
               Call_ModElementCreate (Some (1, 0)) 4 23 (Some 0),
               Call_ModExp 23 19 3 5 0 (Some (1, 4)) 24 5,
               Call_ModElementIsZero 23 5 False,
               Call_ModElementGetValue 23 5 1 2 (Some (1, 4)) 24 SYMCRYPT_NO_ERROR,
               Call_Wipe (Some (1, 0)) 28,
               Call_CallbackFree (Some (1, 0))]\<rparr>)"
  by (subst toy_run_nonzero [where r = 5])
     (simp_all add: toy_nBits toy_fields toy_powers)

lemma toy_run_format7:
  "SymCryptDhSecretAgreement toy_engine toy_keyA toy_keyB 7 0 1 toy_state =
    (Returned (SYMCRYPT_OTHER_ERROR 13),
     \<lparr>heap = (\<lambda>b. None), pbAgreedSecret = [0], released = [(1, replicate 28 0)],
      calls = [Call_CallbackAlloc 28 (Some (1, 0)),
               Call_ModElementCreate (Some (1, 0)) 4 23 (Some 0),
               Call_ModExp 23 19 6 5 0 (Some (1, 4)) 24 2,
               Call_ModElementIsZero 23 2 False,
               Call_ModElementGetValue 23 2 1 7 (Some (1, 4)) 24 (SYMCRYPT_OTHER_ERROR 13),
               Call_Wipe (Some (1, 0)) 28,
               Call_CallbackFree (Some (1, 0))]\<rparr>)"
  by (subst toy_run_nonzero [where r = 2])
     (simp_all add: toy_nBits toy_fields toy_powers)

lemma toy_run_AZ:
  "SymCryptDhSecretAgreement toy_engine toy_keyA toy_keyZ 2 0 1 toy_state =
    (Returned SYMCRYPT_INVALID_BLOB,
     \<lparr>heap = (\<lambda>b. None), pbAgreedSecret = [255], released = [(1, replicate 28 0)],
      calls = [Call_CallbackAlloc 28 (Some (1, 0)),
               Call_ModElementCreate (Some (1, 0)) 4 23 (Some 0),
               Call_ModExp 23 0 6 5 0 (Some (1, 4)) 24 0,
               Call_ModElementIsZero 23 0 True,
               Call_Wipe (Some (1, 0)) 28,
               Call_CallbackFree (Some (1, 0))]\<rparr>)"
  by (subst toy_run_zero)
     (simp_all add: toy_nBits toy_fields toy_powers)

lemma toy_run_A0Z:
  "SymCryptDhSecretAgreement toy_engine (toy_keyA\<lparr>piPrivateKey := 0\<rparr>) toy_keyZ 2 0 1 toy_state =
    (Returned SYMCRYPT_NO_ERROR,
     \<lparr>heap = (\<lambda>b. None), pbAgreedSecret = [1], released = [(1, replicate 28 0)],
      calls = [Call_CallbackAlloc 28 (Some (1, 0)),
               Call_ModElementCreate (Some (1, 0)) 4 23 (Some 0),
               Call_ModExp 23 0 0 5 0 (Some (1, 4)) 24 1,
               Call_ModElementIsZero 23 1 False,
               Call_ModElementGetValue 23 1 1 2 (Some (1, 4)) 24 SYMCRYPT_NO_ERROR,
               Call_Wipe (Some (1, 0)) 28,
               Call_CallbackFree (Some (1, 0))]\<rparr>)"
  by (subst toy_run_nonzero [where r = 1])
     (simp_all add: toy_nBits toy_fields toy_powers)

lemma toy_run_no_memory:
  "SymCryptDhSecretAgreement toy_engine toy_keyA toy_keyB 2 0 1 toy_state_full =
     (Returned SYMCRYPT_MEMORY_ALLOCATION_FAILURE,
      log_call (Call_CallbackAlloc 28 None) toy_state_full)"
proof -
  have "alloc_result toy_engine (cbScratch_of toy_engine toy_keyA) (heap toy_state_full) = None"
    by (simp add: toy_engine_def toy_state_full_def)
  then show ?thesis
    using run_no_memory [of toy_engine toy_keyA toy_keyB 0 1 toy_state_full 2]
    by (simp add: toy_validated toy_fields toy_cbScratch)
qed

subsection \<open>Validation\<close>

text \<open>
  C4. A call whose flags word is not zero, or whose private-bearing key has no private
  exponent, returns \<open>SYMCRYPT_INVALID_ARGUMENT\<close> in the state it started in: no call
  to the allocator or to an arithmetic primitive has been recorded, and the heap and
  the destination buffer are as they were.
\<close>

theorem invalid_flags_or_no_private_key:
  assumes "flags \<noteq> 0 \<or> \<not> fHasPrivateKey pkPrivate"
  shows "SymCryptDhSecretAgreement E pkPrivate pkPublic format flags cbAgreedSecret s
           = (Returned SYMCRYPT_INVALID_ARGUMENT, s)"
  using assms by (auto simp: SymCryptDhSecretAgreement_def cleanup_def)

theorem invalid_flags_or_no_private_key_witness:
  "(1::UINT32) \<noteq> 0
   \<and> SymCryptDhSecretAgreement toy_engine toy_keyA toy_keyB 2 1 1 toy_state
       = (Returned SYMCRYPT_INVALID_ARGUMENT, toy_state)
   \<and> \<not> fHasPrivateKey toy_keyZ
   \<and> SymCryptDhSecretAgreement toy_engine toy_keyZ toy_keyB 2 0 1 toy_state
       = (Returned SYMCRYPT_INVALID_ARGUMENT, toy_state)"
  using invalid_flags_or_no_private_key [of 1 toy_keyA toy_engine toy_keyB 2 1 toy_state]
    invalid_flags_or_no_private_key [of 0 toy_keyZ toy_engine toy_keyB 2 1 toy_state]
  by (simp add: toy_keyZ_def)

text \<open>
  C5. A call whose two keys are in groups that \<open>SymCryptDlgroupIsSame\<close> tells apart
  returns \<open>SYMCRYPT_INVALID_ARGUMENT\<close> in the state it started in, so before any
  allocation, whatever the other arguments are. The comparison is a parameter, so
  this holds for the structural comparison of the two group descriptors as for any
  other; the example has two groups with the same modulus that differ elsewhere in
  the descriptor.
\<close>

theorem different_groups_rejected:
  assumes "\<not> SymCryptDlgroupIsSame E (pDlgroup pkPrivate) (pDlgroup pkPublic)"
  shows "SymCryptDhSecretAgreement E pkPrivate pkPublic format flags cbAgreedSecret s
           = (Returned SYMCRYPT_INVALID_ARGUMENT, s)"
  using assms by (auto simp: SymCryptDhSecretAgreement_def cleanup_def)

theorem different_groups_rejected_witness:
  "\<not> SymCryptDlgroupIsSame toy_engine (pDlgroup toy_keyA) (pDlgroup toy_keyC)
   \<and> pmP (pDlgroup toy_keyA) = pmP (pDlgroup toy_keyC)
   \<and> SymCryptDhSecretAgreement toy_engine toy_keyA toy_keyC 2 0 1 toy_state
       = (Returned SYMCRYPT_INVALID_ARGUMENT, toy_state)"
proof -
  have differ: "\<not> SymCryptDlgroupIsSame toy_engine (pDlgroup toy_keyA) (pDlgroup toy_keyC)"
    by (simp add: toy_engine_def toy_keyA_def toy_keyC_def toy_group_def toy_group2_def)
  have "pmP (pDlgroup toy_keyA) = pmP (pDlgroup toy_keyC)"
    by (simp add: toy_keyA_def toy_keyC_def toy_group_def toy_group2_def)
  with differ different_groups_rejected [OF differ, of 2 0 1 toy_state] show ?thesis
    by simp
qed

text \<open>
  C6. A call that passes the flags, private-key and group checks and whose destination
  length is not the size \<open>SymCryptDlkeySizeofPublicKey\<close> gives returns the
  wrong-size status (the enumeration's name for it is \<open>SYMCRYPT_WRONG_BLOCK_SIZE\<close>)
  in the state it started in: nothing has been allocated.
\<close>

theorem wrong_destination_size:
  assumes "flags = 0" and "fHasPrivateKey pkPrivate"
    and "SymCryptDlgroupIsSame E (pDlgroup pkPrivate) (pDlgroup pkPublic)"
    and "cbAgreedSecret \<noteq> ucast (SymCryptDlkeySizeofPublicKey E pkPrivate)"
  shows "SymCryptDhSecretAgreement E pkPrivate pkPublic format flags cbAgreedSecret s
           = (Returned SYMCRYPT_WRONG_BLOCK_SIZE, s)"
  using assms by (simp add: SymCryptDhSecretAgreement_def cleanup_def)

theorem wrong_destination_size_witness:
  "fHasPrivateKey toy_keyA
   \<and> SymCryptDlgroupIsSame toy_engine (pDlgroup toy_keyA) (pDlgroup toy_keyB)
   \<and> (2::SIZE_T) \<noteq> ucast (SymCryptDlkeySizeofPublicKey toy_engine toy_keyA)
   \<and> SymCryptDhSecretAgreement toy_engine toy_keyA toy_keyB 2 0 2 toy_state
       = (Returned SYMCRYPT_WRONG_BLOCK_SIZE, toy_state)"
proof -
  have h: "fHasPrivateKey toy_keyA"
      "SymCryptDlgroupIsSame toy_engine (pDlgroup toy_keyA) (pDlgroup toy_keyB)"
      "(2::SIZE_T) \<noteq> ucast (SymCryptDlkeySizeofPublicKey toy_engine toy_keyA)"
    by (simp_all add: toy_engine_def toy_keyA_def toy_keyB_def)
  from h wrong_destination_size [OF refl h, of 2 toy_state] show ?thesis
    by simp
qed

text \<open>
  C10. The checks run in the order flags and private key, group, destination size: a
  call that violates at least one of them returns the status of the first check it
  violates, in the state it started in. So non-zero flags with a wrong length give
  \<open>SYMCRYPT_INVALID_ARGUMENT\<close>, as do different groups with a wrong length.
\<close>

theorem validation_precedence:
  assumes "flags \<noteq> 0 \<or> \<not> fHasPrivateKey pkPrivate
           \<or> \<not> SymCryptDlgroupIsSame E (pDlgroup pkPrivate) (pDlgroup pkPublic)
           \<or> cbAgreedSecret \<noteq> ucast (SymCryptDlkeySizeofPublicKey E pkPrivate)"
  shows "SymCryptDhSecretAgreement E pkPrivate pkPublic format flags cbAgreedSecret s
           = (Returned
                (if flags \<noteq> 0 \<or> \<not> fHasPrivateKey pkPrivate then SYMCRYPT_INVALID_ARGUMENT
                 else if \<not> SymCryptDlgroupIsSame E (pDlgroup pkPrivate) (pDlgroup pkPublic)
                 then SYMCRYPT_INVALID_ARGUMENT
                 else SYMCRYPT_WRONG_BLOCK_SIZE), s)"
  using assms by (auto simp: SymCryptDhSecretAgreement_def cleanup_def)

theorem validation_precedence_witness:
  "(1::UINT32) \<noteq> 0
   \<and> (2::SIZE_T) \<noteq> ucast (SymCryptDlkeySizeofPublicKey toy_engine toy_keyA)
   \<and> SymCryptDhSecretAgreement toy_engine toy_keyA toy_keyB 2 1 2 toy_state
       = (Returned SYMCRYPT_INVALID_ARGUMENT, toy_state)
   \<and> \<not> SymCryptDlgroupIsSame toy_engine (pDlgroup toy_keyA) (pDlgroup toy_keyC)
   \<and> SymCryptDhSecretAgreement toy_engine toy_keyA toy_keyC 2 0 2 toy_state
       = (Returned SYMCRYPT_INVALID_ARGUMENT, toy_state)
   \<and> SymCryptDlgroupIsSame toy_engine (pDlgroup toy_keyA) (pDlgroup toy_keyB)
   \<and> SymCryptDhSecretAgreement toy_engine toy_keyA toy_keyB 2 0 2 toy_state
       = (Returned SYMCRYPT_WRONG_BLOCK_SIZE, toy_state)"
proof -
  have size: "(2::SIZE_T) \<noteq> ucast (SymCryptDlkeySizeofPublicKey toy_engine toy_keyA)"
    by (simp add: toy_engine_def)
  have differ: "\<not> SymCryptDlgroupIsSame toy_engine (pDlgroup toy_keyA) (pDlgroup toy_keyC)"
    by (simp add: toy_engine_def toy_keyA_def toy_keyC_def toy_group_def toy_group2_def)
  have has: "fHasPrivateKey toy_keyA"
    by (simp add: toy_keyA_def)
  have same: "SymCryptDlgroupIsSame toy_engine (pDlgroup toy_keyA) (pDlgroup toy_keyB)"
    by (simp add: toy_engine_def toy_keyA_def toy_keyB_def)
  show ?thesis
    using size differ has same
      validation_precedence [of 1 toy_keyA toy_engine toy_keyB 2 2 toy_state]
      validation_precedence [of 0 toy_keyA toy_engine toy_keyC 2 2 toy_state]
      validation_precedence [of 0 toy_keyA toy_engine toy_keyB 2 2 toy_state]
    by simp
qed

subsection \<open>Scratch space\<close>

lemma unat_SYMCRYPT_MAX: "unat (SYMCRYPT_MAX a b) = max (unat a) (unat b)"
  by (simp add: SYMCRYPT_MAX_def word_less_nat_alt max_def)

lemma unat_sum_size_t:
  fixes a b :: UINT32
  assumes "unat a + unat b < 2 ^ 32"
  shows "unat (ucast (a + b) :: SIZE_T) = unat a + unat b"
proof -
  have sum: "unat (a + b) = unat a + unat b"
    using assms by (simp add: unat_word_ariths)
  have "unat a + unat b < 2 ^ 64"
    using assms by simp
  then have "take_bit 64 (unat a + unat b) = unat a + unat b"
    by (simp only: take_bit_nat_eq_self)
  then show ?thesis
    by (simp add: unsigned_ucast_eq sum)
qed

text \<open>
  C7. A call that passes the four checks calls the allocator exactly once, for
  \<open>cbModelement + SYMCRYPT_MAX( modexp scratch, common scratch )\<close> bytes, computed as
  the function computes it (in \<open>UINT32\<close>, then widened to \<open>SIZE_T\<close>); whenever the
  sum of the element size and the larger of the two scratch sizes fits in 32 bits, the
  number of bytes asked for is that sum. If the allocator returns NULL the call
  returns \<open>SYMCRYPT_MEMORY_ALLOCATION_FAILURE\<close>, the allocator call is the only call
  made, and the heap, the destination buffer and the released blocks are as they were.
\<close>

theorem one_allocation_of_computed_size:
  fixes E :: "('m, 'e, 'i) engine" and pkPrivate pkPublic :: "('m, 'e, 'i) SYMCRYPT_DLKEY"
  defines "cbModelement \<equiv> SymCryptSizeofModElementFromModulus E (pmP (pDlgroup pkPrivate))"
    and "cbModExp \<equiv> SYMCRYPT_SCRATCH_BYTES_FOR_MODEXP E (nDigitsOfP (pDlgroup pkPrivate))"
    and "cbCommon \<equiv>
           SYMCRYPT_SCRATCH_BYTES_FOR_COMMON_MOD_OPERATIONS E (nDigitsOfP (pDlgroup pkPrivate))"
  assumes "flags = 0" and "fHasPrivateKey pkPrivate"
    and "SymCryptDlgroupIsSame E (pDlgroup pkPrivate) (pDlgroup pkPublic)"
    and "cbAgreedSecret = ucast (SymCryptDlkeySizeofPublicKey E pkPrivate)"
    and run: "SymCryptDhSecretAgreement E pkPrivate pkPublic format flags cbAgreedSecret s
                = (out, s')"
  shows "(\<exists>pb. filter is_CallbackAlloc (calls_of s s')
                 = [Call_CallbackAlloc (ucast (cbModelement + SYMCRYPT_MAX cbModExp cbCommon)) pb]
              \<and> (pb = None \<longrightarrow>
                   out = Returned SYMCRYPT_MEMORY_ALLOCATION_FAILURE
                   \<and> calls_of s s'
                       = [Call_CallbackAlloc (ucast (cbModelement + SYMCRYPT_MAX cbModExp cbCommon)) None]
                   \<and> heap s' = heap s \<and> pbAgreedSecret s' = pbAgreedSecret s
                   \<and> released s' = released s))
       \<and> (unat cbModelement + max (unat cbModExp) (unat cbCommon) < 2 ^ 32 \<longrightarrow>
            unat (ucast (cbModelement + SYMCRYPT_MAX cbModExp cbCommon) :: SIZE_T)
              = unat cbModelement + max (unat cbModExp) (unat cbCommon))"
proof (rule conjI)
  have v: "validated E pkPrivate pkPublic flags cbAgreedSecret"
    using assms by (simp add: validated_def)
  have size: "cbScratch_of E pkPrivate = ucast (cbModelement + SYMCRYPT_MAX cbModExp cbCommon)"
    by (simp add: cbScratch_of_def cbModelement_def cbModExp_def cbCommon_def)
  show "\<exists>pb. filter is_CallbackAlloc (calls_of s s')
                 = [Call_CallbackAlloc (ucast (cbModelement + SYMCRYPT_MAX cbModExp cbCommon)) pb]
              \<and> (pb = None \<longrightarrow>
                   out = Returned SYMCRYPT_MEMORY_ALLOCATION_FAILURE
                   \<and> calls_of s s'
                       = [Call_CallbackAlloc (ucast (cbModelement + SYMCRYPT_MAX cbModExp cbCommon)) None]
                   \<and> heap s' = heap s \<and> pbAgreedSecret s' = pbAgreedSecret s
                   \<and> released s' = released s)"
    using run
  proof (cases rule: agreement_cases)
    case invalid_argument
    with v show ?thesis by (simp add: validated_def)
  next
    case wrong_size
    with v show ?thesis by (simp add: validated_def)
  next
    case no_memory
    then show ?thesis
      by (intro exI [of _ None]) (simp add: size [symmetric] log_call_def is_CallbackAlloc_def)
  next
    case (assert_failed b img)
    then show ?thesis
      by (intro exI [of _ "Some (b, 0)"]) (simp add: size [symmetric] is_CallbackAlloc_def)
  next
    case (zero_result b img e0 r img')
    then show ?thesis
      by (intro exI [of _ "Some (b, 0)"]) (simp add: size [symmetric] is_CallbackAlloc_def)
  next
    case (encoded b img e0 r img' st outb img'')
    then show ?thesis
      by (intro exI [of _ "Some (b, 0)"]) (simp add: size [symmetric] is_CallbackAlloc_def)
  qed
next
  show "unat cbModelement + max (unat cbModExp) (unat cbCommon) < 2 ^ 32 \<longrightarrow>
            unat (ucast (cbModelement + SYMCRYPT_MAX cbModExp cbCommon) :: SIZE_T)
              = unat cbModelement + max (unat cbModExp) (unat cbCommon)"
    using unat_sum_size_t [of cbModelement "SYMCRYPT_MAX cbModExp cbCommon"]
    by (simp add: unat_SYMCRYPT_MAX)
qed

theorem one_allocation_of_computed_size_witness:
  "fHasPrivateKey toy_keyA
   \<and> SymCryptDlgroupIsSame toy_engine (pDlgroup toy_keyA) (pDlgroup toy_keyB)
   \<and> (1::SIZE_T) = ucast (SymCryptDlkeySizeofPublicKey toy_engine toy_keyA)
   \<and> filter is_CallbackAlloc (calls_of toy_state
        (snd (SymCryptDhSecretAgreement toy_engine toy_keyA toy_keyB 2 0 1 toy_state)))
       = [Call_CallbackAlloc 28 (Some (1, 0))]
   \<and> unat (28::SIZE_T) = 4 + max 24 8
   \<and> filter is_CallbackAlloc (calls_of toy_state_full
        (snd (SymCryptDhSecretAgreement toy_engine toy_keyA toy_keyB 2 0 1 toy_state_full)))
       = [Call_CallbackAlloc 28 None]
   \<and> fst (SymCryptDhSecretAgreement toy_engine toy_keyA toy_keyB 2 0 1 toy_state_full)
       = Returned SYMCRYPT_MEMORY_ALLOCATION_FAILURE
   \<and> pbAgreedSecret (snd (SymCryptDhSecretAgreement toy_engine toy_keyA toy_keyB 2 0 1
        toy_state_full)) = pbAgreedSecret toy_state_full
   \<and> heap (snd (SymCryptDhSecretAgreement toy_engine toy_keyA toy_keyB 2 0 1 toy_state_full))
       = heap toy_state_full"
proof -
  let ?run = "SymCryptDhSecretAgreement toy_engine toy_keyA toy_keyB 2 0 1 toy_state"
  let ?full = "SymCryptDhSecretAgreement toy_engine toy_keyA toy_keyB 2 0 1 toy_state_full"
  have h: "fHasPrivateKey toy_keyA"
      "SymCryptDlgroupIsSame toy_engine (pDlgroup toy_keyA) (pDlgroup toy_keyB)"
      "(1::SIZE_T) = ucast (SymCryptDlkeySizeofPublicKey toy_engine toy_keyA)"
    by (simp_all add: toy_engine_def toy_fields)
  have sizes: "SymCryptSizeofModElementFromModulus toy_engine (pmP (pDlgroup toy_keyA)) = 4"
      "SYMCRYPT_SCRATCH_BYTES_FOR_MODEXP toy_engine (nDigitsOfP (pDlgroup toy_keyA)) = 24"
      "SYMCRYPT_SCRATCH_BYTES_FOR_COMMON_MOD_OPERATIONS toy_engine (nDigitsOfP (pDlgroup toy_keyA)) = 8"
    by (simp_all add: toy_engine_def toy_fields toy_group_def)
  have ok: "filter is_CallbackAlloc (calls_of toy_state (snd ?run))
              = [Call_CallbackAlloc 28 (Some (1, 0))]"
    by (simp add: toy_run_AB calls_of_def toy_state_fields is_CallbackAlloc_def)
  have run: "?run = (fst ?run, snd ?run)" and full: "?full = (fst ?full, snd ?full)"
    by simp_all
  have failed: "filter is_CallbackAlloc (calls_of toy_state_full (snd ?full))
                  = [Call_CallbackAlloc 28 None]"
    by (simp add: toy_run_no_memory calls_of_def log_call_def is_CallbackAlloc_def)
  have "unat (28::SIZE_T) = 4 + max 24 8"
    using one_allocation_of_computed_size [OF refl h run] by (simp add: sizes SYMCRYPT_MAX_def)
  moreover have "fst ?full = Returned SYMCRYPT_MEMORY_ALLOCATION_FAILURE
      \<and> pbAgreedSecret (snd ?full) = pbAgreedSecret toy_state_full
      \<and> heap (snd ?full) = heap toy_state_full"
    using one_allocation_of_computed_size [OF refl h full] failed by auto
  ultimately show ?thesis
    using h ok failed by simp
qed

subsection \<open>Exponent length\<close>

text \<open>
  C2. Whenever a call gets as far as calling the exponentiation primitive, the bit
  length it passes is \<open>nBitsPriv\<close> of the private key when that key has
  \<open>fPrivateModQ\<close> set, and \<open>nBitsOfP\<close> of the group otherwise. The length is the
  same whatever the private exponent is: the same call with any other exponent
  \<open>x'\<close> in the key passes the same length, if it reaches the exponentiation.
\<close>

theorem exponent_length_by_key_class:
  assumes run: "SymCryptDhSecretAgreement E pkPrivate pkPublic format flags cbAgreedSecret s
                  = (out, s')"
    and modexp: "Call_ModExp pm b x n f pbS cbS r \<in> set (calls_of s s')"
  shows "n = (if fPrivateModQ pkPrivate then nBitsPriv pkPrivate
              else nBitsOfP (pDlgroup pkPrivate))
       \<and> (\<forall>x' out2 s2 pm2 b2 x2 n2 f2 pbS2 cbS2 r2.
             SymCryptDhSecretAgreement E (pkPrivate\<lparr>piPrivateKey := x'\<rparr>) pkPublic format flags
               cbAgreedSecret s = (out2, s2)
             \<and> Call_ModExp pm2 b2 x2 n2 f2 pbS2 cbS2 r2 \<in> set (calls_of s s2)
             \<longrightarrow> n2 = n)"
proof -
  have len: "n' = nBitsOfExp_of k"
    if "SymCryptDhSecretAgreement E k pkPublic format flags cbAgreedSecret s = (o', t)"
      and "Call_ModExp pm' b' x' n' f' pbS' cbS' r' \<in> set (calls_of s t)"
    for k o' t pm' b' x' n' f' pbS' cbS' r'
    using that by (cases rule: agreement_cases) (auto simp: calls_of_def log_call_def)
  have n: "n = nBitsOfExp_of pkPrivate"
    using run modexp by (rule len)
  show ?thesis
  proof (intro conjI allI impI)
    show "n = (if fPrivateModQ pkPrivate then nBitsPriv pkPrivate
               else nBitsOfP (pDlgroup pkPrivate))"
      using n by (simp add: nBitsOfExp_of_def)
  next
    fix x' out2 s2 pm2 b2 x2 n2 f2 pbS2 cbS2 r2
    assume other: "SymCryptDhSecretAgreement E (pkPrivate\<lparr>piPrivateKey := x'\<rparr>) pkPublic
        format flags cbAgreedSecret s = (out2, s2)
      \<and> Call_ModExp pm2 b2 x2 n2 f2 pbS2 cbS2 r2 \<in> set (calls_of s s2)"
    have "n2 = nBitsOfExp_of (pkPrivate\<lparr>piPrivateKey := x'\<rparr>)"
      using other [THEN conjunct1] other [THEN conjunct2] by (rule len)
    then show "n2 = n"
      using n by (simp add: nBitsOfExp_of_def)
  qed
qed

theorem exponent_length_by_key_class_witness:
  "Call_ModExp 23 19 6 5 0 (Some (1, 4)) 24 2 \<in> set (calls_of toy_state
      (snd (SymCryptDhSecretAgreement toy_engine toy_keyA toy_keyB 2 0 1 toy_state)))
   \<and> \<not> fPrivateModQ toy_keyA \<and> nBitsOfP (pDlgroup toy_keyA) = 5
   \<and> Call_ModExp 23 8 15 4 0 (Some (1, 4)) 24 2 \<in> set (calls_of toy_state
      (snd (SymCryptDhSecretAgreement toy_engine toy_keyB toy_keyA 2 0 1 toy_state)))
   \<and> fPrivateModQ toy_keyB \<and> nBitsPriv toy_keyB = 4
   \<and> Call_ModExp 23 19 3 5 0 (Some (1, 4)) 24 5 \<in> set (calls_of toy_state
      (snd (SymCryptDhSecretAgreement toy_engine (toy_keyA\<lparr>piPrivateKey := 3\<rparr>) toy_keyB 2 0 1
         toy_state)))"
proof -
  let ?sA = "snd (SymCryptDhSecretAgreement toy_engine toy_keyA toy_keyB 2 0 1 toy_state)"
  let ?sB = "snd (SymCryptDhSecretAgreement toy_engine toy_keyB toy_keyA 2 0 1 toy_state)"
  let ?s3 = "snd (SymCryptDhSecretAgreement toy_engine (toy_keyA\<lparr>piPrivateKey := 3\<rparr>) toy_keyB
                2 0 1 toy_state)"
  have runA: "SymCryptDhSecretAgreement toy_engine toy_keyA toy_keyB 2 0 1 toy_state
                = (Returned SYMCRYPT_NO_ERROR, ?sA)"
    by (simp add: toy_run_AB)
  have callA: "Call_ModExp 23 19 6 5 0 (Some (1, 4)) 24 2 \<in> set (calls_of toy_state ?sA)"
    by (simp add: toy_run_AB calls_of_def toy_state_fields)
  have runB: "SymCryptDhSecretAgreement toy_engine toy_keyB toy_keyA 2 0 1 toy_state
                = (Returned SYMCRYPT_NO_ERROR, ?sB)"
    by (simp add: toy_run_BA)
  have callB: "Call_ModExp 23 8 15 4 0 (Some (1, 4)) 24 2 \<in> set (calls_of toy_state ?sB)"
    by (simp add: toy_run_BA calls_of_def toy_state_fields)
  have run3: "SymCryptDhSecretAgreement toy_engine (toy_keyA\<lparr>piPrivateKey := 3\<rparr>) toy_keyB
                2 0 1 toy_state = (Returned SYMCRYPT_NO_ERROR, ?s3)"
    by (simp add: toy_run_A3B)
  have call3: "Call_ModExp 23 19 3 5 0 (Some (1, 4)) 24 5 \<in> set (calls_of toy_state ?s3)"
    by (simp add: toy_run_A3B calls_of_def toy_state_fields)
  have classA: "\<not> fPrivateModQ toy_keyA" and classB: "fPrivateModQ toy_keyB"
    by (simp_all add: toy_keyA_def toy_keyB_def)
  have "(5::UINT32) = nBitsOfP (pDlgroup toy_keyA)"
    using exponent_length_by_key_class [OF runA callA] classA by simp
  moreover have "(4::UINT32) = nBitsPriv toy_keyB"
    using exponent_length_by_key_class [OF runB callB] classB by simp
  moreover have "(5::UINT32) = 5"
    using exponent_length_by_key_class [OF runA callA] run3 call3 by blast
  ultimately show ?thesis
    using callA callB call3 classA classB by simp
qed

subsection \<open>Zero result\<close>

text \<open>
  C3. Whenever the element that the exponentiation primitive returned is zero (as
  \<open>SymCryptModElementIsZero\<close> tells, on the result and not on the public element),
  the call returns \<open>SYMCRYPT_INVALID_BLOB\<close>, the value-extraction primitive is never
  called, and the destination buffer holds what it held before the call.
\<close>

theorem zero_result_is_invalid_blob:
  assumes run: "SymCryptDhSecretAgreement E pkPrivate pkPublic format flags cbAgreedSecret s
                  = (out, s')"
    and modexp: "Call_ModExp pm b x n f pbS cbS r \<in> set (calls_of s s')"
    and zero: "SymCryptModElementIsZero E pm r"
  shows "out = Returned SYMCRYPT_INVALID_BLOB
       \<and> pbAgreedSecret s' = pbAgreedSecret s
       \<and> (\<forall>pm' e cbDst fmt pbS' cbS' st.
            Call_ModElementGetValue pm' e cbDst fmt pbS' cbS' st \<notin> set (calls_of s s'))"
  using run modexp zero
  by (cases rule: agreement_cases) (auto simp: calls_of_def log_call_def)

theorem zero_result_is_invalid_blob_witness:
  "Call_ModExp 23 0 6 5 0 (Some (1, 4)) 24 0 \<in> set (calls_of toy_state
      (snd (SymCryptDhSecretAgreement toy_engine toy_keyA toy_keyZ 2 0 1 toy_state)))
   \<and> SymCryptModElementIsZero toy_engine 23 0
   \<and> fst (SymCryptDhSecretAgreement toy_engine toy_keyA toy_keyZ 2 0 1 toy_state)
       = Returned SYMCRYPT_INVALID_BLOB
   \<and> pbAgreedSecret (snd (SymCryptDhSecretAgreement toy_engine toy_keyA toy_keyZ 2 0 1 toy_state))
       = pbAgreedSecret toy_state
   \<and> pePublicKey toy_keyZ = 0
   \<and> fst (SymCryptDhSecretAgreement toy_engine (toy_keyA\<lparr>piPrivateKey := 0\<rparr>) toy_keyZ 2 0 1
           toy_state) = Returned SYMCRYPT_NO_ERROR"
proof -
  let ?s' = "snd (SymCryptDhSecretAgreement toy_engine toy_keyA toy_keyZ 2 0 1 toy_state)"
  have run: "SymCryptDhSecretAgreement toy_engine toy_keyA toy_keyZ 2 0 1 toy_state
               = (fst (SymCryptDhSecretAgreement toy_engine toy_keyA toy_keyZ 2 0 1 toy_state), ?s')"
    by simp
  have call: "Call_ModExp 23 0 6 5 0 (Some (1, 4)) 24 0 \<in> set (calls_of toy_state ?s')"
    by (simp add: toy_run_AZ calls_of_def toy_state_fields)
  have zero: "SymCryptModElementIsZero toy_engine 23 0"
    by (simp add: toy_engine_def)
  have other: "fst (SymCryptDhSecretAgreement toy_engine (toy_keyA\<lparr>piPrivateKey := 0\<rparr>) toy_keyZ
                 2 0 1 toy_state) = Returned SYMCRYPT_NO_ERROR"
    by (simp add: toy_run_A0Z)
  show ?thesis
    using zero_result_is_invalid_blob [OF run call zero] call zero other
    by (simp add: toy_keyZ_def)
qed

subsection \<open>Encoding errors\<close>

text \<open>
  C9. Whenever the value-extraction primitive is called, the call returns the very
  status the primitive reports, a status other than success like any other, and it
  does so after the cleanup: the wipe and the free of the allocated scratch block are
  the two calls that follow the extraction, and the block was all zero when it was
  released.
\<close>

theorem encoding_status_returned_verbatim:
  assumes run: "SymCryptDhSecretAgreement E pkPrivate pkPublic format flags cbAgreedSecret s
                  = (out, s')"
    and getvalue: "Call_ModElementGetValue pm e cbDst fmt pbS cbS st \<in> set (calls_of s s')"
  shows "out = Returned st
       \<and> (\<exists>pre pb cb.
            calls_of s s' = pre @ [Call_ModElementGetValue pm e cbDst fmt pbS cbS st,
                                   Call_Wipe (Some pb) cb, Call_CallbackFree (Some pb)]
            \<and> Call_CallbackAlloc cb (Some pb) \<in> set pre
            \<and> released s' = released s @ [(fst pb, replicate (unat cb) 0)]
            \<and> heap s' (fst pb) = None)"
  using run getvalue
proof (cases rule: agreement_cases)
  case (encoded b img e0 r img' st' outb img'')
  let ?pre = "[Call_CallbackAlloc (cbScratch_of E pkPrivate) (Some (b, 0)),
        Call_ModElementCreate (Some (b, 0)) (cbModelement_of E pkPrivate) (pmP (pDlgroup pkPrivate)) (Some e0),
        Call_ModExp (pmP (pDlgroup pkPrivate)) (pePublicKey pkPublic) (piPrivateKey pkPrivate)
          (nBitsOfExp_of pkPrivate) 0 (Some (b, unat (cbModelement_of E pkPrivate)))
          (cbScratch_of E pkPrivate - ucast (cbModelement_of E pkPrivate)) r,
        Call_ModElementIsZero (pmP (pDlgroup pkPrivate)) r False]"
  have ev: "Call_ModElementGetValue pm e cbDst fmt pbS cbS st =
      Call_ModElementGetValue (pmP (pDlgroup pkPrivate)) r cbAgreedSecret format
          (Some (b, unat (cbModelement_of E pkPrivate)))
          (cbScratch_of E pkPrivate - ucast (cbModelement_of E pkPrivate)) st'"
    using encoded getvalue by auto
  have cs: "calls_of s s' = ?pre @ [Call_ModElementGetValue pm e cbDst fmt pbS cbS st,
                Call_Wipe (Some (b, 0)) (cbScratch_of E pkPrivate), Call_CallbackFree (Some (b, 0))]"
    using encoded ev by simp
  have ret: "out = Returned st"
    using encoded ev by simp
  have alloc: "Call_CallbackAlloc (cbScratch_of E pkPrivate) (Some (b, 0)) \<in> set ?pre"
    by simp
  have rel: "released s' = released s @ [(fst (b, 0::nat), replicate (unat (cbScratch_of E pkPrivate)) 0)]"
    using encoded by simp
  have gone: "heap s' (fst (b, 0::nat)) = None"
    using encoded by simp
  show ?thesis
    using ret cs alloc rel gone by blast
qed (auto simp: calls_of_def log_call_def)

theorem encoding_status_returned_verbatim_witness:
  "Call_ModElementGetValue 23 2 1 7 (Some (1, 4)) 24 (SYMCRYPT_OTHER_ERROR 13)
     \<in> set (calls_of toy_state
          (snd (SymCryptDhSecretAgreement toy_engine toy_keyA toy_keyB 7 0 1 toy_state)))
   \<and> SYMCRYPT_OTHER_ERROR 13 \<noteq> SYMCRYPT_NO_ERROR
   \<and> fst (SymCryptDhSecretAgreement toy_engine toy_keyA toy_keyB 7 0 1 toy_state)
       = Returned (SYMCRYPT_OTHER_ERROR 13)
   \<and> released (snd (SymCryptDhSecretAgreement toy_engine toy_keyA toy_keyB 7 0 1 toy_state))
       = [(1, replicate 28 0)]"
proof -
  let ?s' = "snd (SymCryptDhSecretAgreement toy_engine toy_keyA toy_keyB 7 0 1 toy_state)"
  have run: "SymCryptDhSecretAgreement toy_engine toy_keyA toy_keyB 7 0 1 toy_state
               = (fst (SymCryptDhSecretAgreement toy_engine toy_keyA toy_keyB 7 0 1 toy_state), ?s')"
    by simp
  have call: "Call_ModElementGetValue 23 2 1 7 (Some (1, 4)) 24 (SYMCRYPT_OTHER_ERROR 13)
                \<in> set (calls_of toy_state ?s')"
    by (simp add: toy_run_format7 calls_of_def toy_state_fields)
  have failed: "SYMCRYPT_OTHER_ERROR 13 \<noteq> SYMCRYPT_NO_ERROR"
    by simp
  have rel: "released ?s' = [(1, replicate 28 0)]"
    by (simp add: toy_run_format7)
  show ?thesis
    using encoding_status_returned_verbatim [OF run call] call rel failed
    by simp
qed

subsection \<open>Cleanup\<close>

lemma wiped_then_freed:
  assumes cs: "calls_of s s' = pre @ [Call_Wipe (Some (b, 0)) cbS, Call_CallbackFree (Some (b, 0))]"
    and only: "\<And>cb pb. Call_CallbackAlloc cb (Some pb) \<in> set pre \<Longrightarrow> cb = cbS \<and> pb = (b, 0)"
    and alloc: "Call_CallbackAlloc cbS (Some (b, 0)) \<in> set pre"
    and nowipe: "\<And>p c. Call_Wipe p c \<notin> set pre"
    and nofree: "\<And>p. Call_CallbackFree p \<notin> set pre"
    and rel: "released s' = released s @ [(b, replicate (unat cbS) 0)]"
    and gone: "heap s' b = None"
  shows "(\<forall>cb pb. Call_CallbackAlloc cb (Some pb) \<in> set (calls_of s s') \<longrightarrow>
            (\<exists>pre. calls_of s s' = pre @ [Call_Wipe (Some pb) cb, Call_CallbackFree (Some pb)]
                   \<and> (\<forall>p c. Call_Wipe p c \<notin> set pre) \<and> (\<forall>p. Call_CallbackFree p \<notin> set pre))
            \<and> released s' = released s @ [(fst pb, replicate (unat cb) 0)]
            \<and> heap s' (fst pb) = None)
       \<and> ((\<forall>cb pb. Call_CallbackAlloc cb (Some pb) \<notin> set (calls_of s s')) \<longrightarrow>
            (\<forall>p c. Call_Wipe p c \<notin> set (calls_of s s'))
            \<and> (\<forall>p. Call_CallbackFree p \<notin> set (calls_of s s'))
            \<and> released s' = released s \<and> heap s' = heap s)"
proof (rule conjI)
  show "\<forall>cb pb. Call_CallbackAlloc cb (Some pb) \<in> set (calls_of s s') \<longrightarrow>
            (\<exists>pre. calls_of s s' = pre @ [Call_Wipe (Some pb) cb, Call_CallbackFree (Some pb)]
                   \<and> (\<forall>p c. Call_Wipe p c \<notin> set pre) \<and> (\<forall>p. Call_CallbackFree p \<notin> set pre))
            \<and> released s' = released s @ [(fst pb, replicate (unat cb) 0)]
            \<and> heap s' (fst pb) = None"
  proof (intro allI impI)
    fix cb pb
    assume "Call_CallbackAlloc cb (Some pb) \<in> set (calls_of s s')"
    then have "Call_CallbackAlloc cb (Some pb) \<in> set pre"
      by (simp add: cs)
    then have eq: "cb = cbS" "pb = (b, 0)"
      using only by blast+
    have shape: "\<exists>pre. calls_of s s' = pre @ [Call_Wipe (Some pb) cb, Call_CallbackFree (Some pb)]
                \<and> (\<forall>p c. Call_Wipe p c \<notin> set pre) \<and> (\<forall>p. Call_CallbackFree p \<notin> set pre)"
      using cs nowipe nofree eq by blast
    have "released s' = released s @ [(fst pb, replicate (unat cb) 0)]"
      using rel eq by simp
    moreover have "heap s' (fst pb) = None"
      using gone eq by simp
    ultimately show "(\<exists>pre. calls_of s s' = pre @ [Call_Wipe (Some pb) cb, Call_CallbackFree (Some pb)]
                   \<and> (\<forall>p c. Call_Wipe p c \<notin> set pre) \<and> (\<forall>p. Call_CallbackFree p \<notin> set pre))
            \<and> released s' = released s @ [(fst pb, replicate (unat cb) 0)]
            \<and> heap s' (fst pb) = None"
      using shape by (intro conjI)
  qed
next
  show "(\<forall>cb pb. Call_CallbackAlloc cb (Some pb) \<notin> set (calls_of s s')) \<longrightarrow>
            (\<forall>p c. Call_Wipe p c \<notin> set (calls_of s s'))
            \<and> (\<forall>p. Call_CallbackFree p \<notin> set (calls_of s s'))
            \<and> released s' = released s \<and> heap s' = heap s"
  proof (rule impI)
    assume none: "\<forall>cb pb. Call_CallbackAlloc cb (Some pb) \<notin> set (calls_of s s')"
    have "Call_CallbackAlloc cbS (Some (b, 0)) \<in> set (calls_of s s')"
      using alloc by (simp add: cs)
    with none have False
      by blast
    then show "(\<forall>p c. Call_Wipe p c \<notin> set (calls_of s s'))
            \<and> (\<forall>p. Call_CallbackFree p \<notin> set (calls_of s s'))
            \<and> released s' = released s \<and> heap s' = heap s"
      by (rule FalseE)
  qed
qed

text \<open>
  C1. For every call that returns: if the allocator handed out a scratch block, the
  last two calls are the wipe of that block over the length that was allocated and
  then its free, neither of which happened before; the block held zero in every byte
  of its extent when it was released, and it is no longer live. If no block was
  handed out, there is no wipe and no free, and the heap and the released blocks are
  as they were.
\<close>

theorem scratch_wiped_before_release:
  assumes run: "SymCryptDhSecretAgreement E pkPrivate pkPublic format flags cbAgreedSecret s
                  = (Returned st, s')"
  shows "(\<forall>cb pb. Call_CallbackAlloc cb (Some pb) \<in> set (calls_of s s') \<longrightarrow>
            (\<exists>pre. calls_of s s' = pre @ [Call_Wipe (Some pb) cb, Call_CallbackFree (Some pb)]
                   \<and> (\<forall>p c. Call_Wipe p c \<notin> set pre) \<and> (\<forall>p. Call_CallbackFree p \<notin> set pre))
            \<and> released s' = released s @ [(fst pb, replicate (unat cb) 0)]
            \<and> heap s' (fst pb) = None)
       \<and> ((\<forall>cb pb. Call_CallbackAlloc cb (Some pb) \<notin> set (calls_of s s')) \<longrightarrow>
            (\<forall>p c. Call_Wipe p c \<notin> set (calls_of s s'))
            \<and> (\<forall>p. Call_CallbackFree p \<notin> set (calls_of s s'))
            \<and> released s' = released s \<and> heap s' = heap s)"
  using run
proof (cases rule: agreement_cases)
  case invalid_argument
  then show ?thesis by (simp add: calls_of_def)
next
  case wrong_size
  then show ?thesis by (simp add: calls_of_def)
next
  case no_memory
  then show ?thesis by (simp add: calls_of_def log_call_def)
next
  case (assert_failed b img)
  then show ?thesis by simp
next
  case (zero_result b img e0 r img')
  let ?pre = "[Call_CallbackAlloc (cbScratch_of E pkPrivate) (Some (b, 0)),
        Call_ModElementCreate (Some (b, 0)) (cbModelement_of E pkPrivate) (pmP (pDlgroup pkPrivate)) (Some e0),
        Call_ModExp (pmP (pDlgroup pkPrivate)) (pePublicKey pkPublic) (piPrivateKey pkPrivate)
          (nBitsOfExp_of pkPrivate) 0 (Some (b, unat (cbModelement_of E pkPrivate)))
          (cbScratch_of E pkPrivate - ucast (cbModelement_of E pkPrivate)) r,
        Call_ModElementIsZero (pmP (pDlgroup pkPrivate)) r True]"
  have cs: "calls_of s s' = ?pre @ [Call_Wipe (Some (b, 0)) (cbScratch_of E pkPrivate),
                                     Call_CallbackFree (Some (b, 0))]"
    using zero_result by simp
  show ?thesis
    by (rule wiped_then_freed [OF cs]) (use zero_result in simp_all)
next
  case (encoded b img e0 r img' st' outb img'')
  let ?pre = "[Call_CallbackAlloc (cbScratch_of E pkPrivate) (Some (b, 0)),
        Call_ModElementCreate (Some (b, 0)) (cbModelement_of E pkPrivate) (pmP (pDlgroup pkPrivate)) (Some e0),
        Call_ModExp (pmP (pDlgroup pkPrivate)) (pePublicKey pkPublic) (piPrivateKey pkPrivate)
          (nBitsOfExp_of pkPrivate) 0 (Some (b, unat (cbModelement_of E pkPrivate)))
          (cbScratch_of E pkPrivate - ucast (cbModelement_of E pkPrivate)) r,
        Call_ModElementIsZero (pmP (pDlgroup pkPrivate)) r False,
        Call_ModElementGetValue (pmP (pDlgroup pkPrivate)) r cbAgreedSecret format
          (Some (b, unat (cbModelement_of E pkPrivate)))
          (cbScratch_of E pkPrivate - ucast (cbModelement_of E pkPrivate)) st']"
  have cs: "calls_of s s' = ?pre @ [Call_Wipe (Some (b, 0)) (cbScratch_of E pkPrivate),
                                     Call_CallbackFree (Some (b, 0))]"
    using encoded by simp
  show ?thesis
    by (rule wiped_then_freed [OF cs]) (use encoded in simp_all)
qed

theorem scratch_wiped_before_release_witness:
  "SymCryptDhSecretAgreement toy_engine toy_keyA toy_keyB 2 0 1 toy_state
     = (Returned SYMCRYPT_NO_ERROR,
        snd (SymCryptDhSecretAgreement toy_engine toy_keyA toy_keyB 2 0 1 toy_state))
   \<and> Call_CallbackAlloc 28 (Some (1, 0)) \<in> set (calls_of toy_state
         (snd (SymCryptDhSecretAgreement toy_engine toy_keyA toy_keyB 2 0 1 toy_state)))
   \<and> released (snd (SymCryptDhSecretAgreement toy_engine toy_keyA toy_keyB 2 0 1 toy_state))
       = [(1, replicate 28 0)]
   \<and> heap (snd (SymCryptDhSecretAgreement toy_engine toy_keyA toy_keyB 2 0 1 toy_state)) 1 = None
   \<and> SymCryptDhSecretAgreement toy_engine toy_keyA toy_keyB 2 1 1 toy_state
       = (Returned SYMCRYPT_INVALID_ARGUMENT, toy_state)
   \<and> calls_of toy_state toy_state = []
   \<and> (\<forall>p. Call_CallbackFree p \<notin> set (calls_of toy_state toy_state))"
proof -
  let ?s' = "snd (SymCryptDhSecretAgreement toy_engine toy_keyA toy_keyB 2 0 1 toy_state)"
  have run: "SymCryptDhSecretAgreement toy_engine toy_keyA toy_keyB 2 0 1 toy_state
               = (Returned SYMCRYPT_NO_ERROR, ?s')"
    by (simp add: toy_run_AB)
  have alloc: "Call_CallbackAlloc 28 (Some (1, 0)) \<in> set (calls_of toy_state ?s')"
    by (simp add: toy_run_AB calls_of_def toy_state_fields)
  have "released ?s' = released toy_state @ [(fst (1::nat, 0::nat), replicate (unat (28::SIZE_T)) 0)]
        \<and> heap ?s' (fst (1::nat, 0::nat)) = None"
    using scratch_wiped_before_release [OF run] alloc by blast
  then have wiped: "released ?s' = [(1, replicate 28 0)] \<and> heap ?s' 1 = None"
    by (simp add: toy_state_fields)
  have early: "SymCryptDhSecretAgreement toy_engine toy_keyA toy_keyB 2 1 1 toy_state
       = (Returned SYMCRYPT_INVALID_ARGUMENT, toy_state)"
    by (simp add: SymCryptDhSecretAgreement_def cleanup_def)
  have none: "calls_of toy_state toy_state = []"
    by (simp add: calls_of_def)
  then have "\<forall>cb pb. Call_CallbackAlloc cb (Some pb) \<notin> set (calls_of toy_state toy_state)"
    by simp
  with scratch_wiped_before_release [OF early]
  have "\<forall>p. Call_CallbackFree p \<notin> set (calls_of toy_state toy_state)"
    by blast
  with run alloc wiped early none show ?thesis
    by blast
qed

subsection \<open>The exchange commutes\<close>

lemma store_bytes_whole:
  "length buf = n \<Longrightarrow> store_bytes 0 n img buf = map img [0..<n]"
  by (simp add: store_bytes_def)

lemma power_of_power_mod: "(g ^ b mod P) ^ a mod P = g ^ (a * b) mod (P::nat)"
proof -
  have "(g ^ b mod P) ^ a mod P = (g ^ b) ^ a mod P"
    by (rule power_mod)
  also have "(g ^ b) ^ a = g ^ (b * a)"
    by (simp add: power_mult)
  finally show ?thesis
    by (simp add: mult.commute)
qed

text \<open>
  C8. Take an engine over the natural numbers whose exponentiation is
  \<open>modexp_steps\<close>, a group \<open>G\<close>, and two keys of \<open>G\<close> whose public elements
  are \<open>g ^ a mod P\<close> and \<open>g ^ b mod P\<close> for their private exponents \<open>a\<close> and
  \<open>b\<close>, each exponent within the bit length its key declares for it (\<open>nBitsPriv\<close>
  for a key with \<open>fPrivateModQ\<close>, \<open>nBitsOfP\<close> otherwise). If the call with the
  first key's exponent and the second key's public element and the call the other way
  round both succeed, with the same format and the same length, into destination
  buffers of that length, then the two buffers hold the same bytes.
\<close>

theorem agreement_commutes:
  fixes E :: "(nat, nat, nat) engine"
  assumes modexp: "\<forall>P b x n f cb. fst (modexp_result E P b x n f cb) = modexp_steps P b x (unat n)"
    and groupA: "pDlgroup keyA = G" and groupB: "pDlgroup keyB = G"
    and publicA: "pePublicKey keyA = g ^ piPrivateKey keyA mod pmP G"
    and publicB: "pePublicKey keyB = g ^ piPrivateKey keyB mod pmP G"
    and fitsA: "piPrivateKey keyA
                  < 2 ^ unat (if fPrivateModQ keyA then nBitsPriv keyA else nBitsOfP G)"
    and fitsB: "piPrivateKey keyB
                  < 2 ^ unat (if fPrivateModQ keyB then nBitsPriv keyB else nBitsOfP G)"
    and bufA: "length (pbAgreedSecret sA) = unat cbAgreedSecret"
    and bufB: "length (pbAgreedSecret sB) = unat cbAgreedSecret"
    and runA: "SymCryptDhSecretAgreement E keyA keyB format flags cbAgreedSecret sA
                 = (Returned SYMCRYPT_NO_ERROR, sA')"
    and runB: "SymCryptDhSecretAgreement E keyB keyA format flags cbAgreedSecret sB
                 = (Returned SYMCRYPT_NO_ERROR, sB')"
  shows "pbAgreedSecret sA' = pbAgreedSecret sB'"
proof -
  let ?cbS = "cbScratch_of E keyA - ucast (cbModelement_of E keyA)"
  have same_sizes: "cbScratch_of E keyB - ucast (cbModelement_of E keyB) = ?cbS"
    by (simp add: cbScratch_of_def cbModelement_of_def groupA groupB)
  have bitsA: "piPrivateKey keyA < 2 ^ unat (nBitsOfExp_of keyA)"
    unfolding nBitsOfExp_of_def groupA by (rule fitsA)
  have bitsB: "piPrivateKey keyB < 2 ^ unat (nBitsOfExp_of keyB)"
    unfolding nBitsOfExp_of_def groupB by (rule fitsB)
  from runA obtain rA imgA outA imgA' where
    mA: "modexp_result E (pmP G) (pePublicKey keyB) (piPrivateKey keyA) (nBitsOfExp_of keyA) 0 ?cbS
           = (rA, imgA)"
    and gA: "getvalue_result E (pmP G) rA cbAgreedSecret format ?cbS
           = (SYMCRYPT_NO_ERROR, outA, imgA')"
    and dA: "pbAgreedSecret sA' = store_bytes 0 (unat cbAgreedSecret) outA (pbAgreedSecret sA)"
    by (cases rule: agreement_cases) (auto simp: groupA)
  from runB obtain rB imgB outB imgB' where
    mB: "modexp_result E (pmP G) (pePublicKey keyA) (piPrivateKey keyB) (nBitsOfExp_of keyB) 0 ?cbS
           = (rB, imgB)"
    and gB: "getvalue_result E (pmP G) rB cbAgreedSecret format ?cbS
           = (SYMCRYPT_NO_ERROR, outB, imgB')"
    and dB: "pbAgreedSecret sB' = store_bytes 0 (unat cbAgreedSecret) outB (pbAgreedSecret sB)"
    by (cases rule: agreement_cases) (auto simp: groupB same_sizes)
  have "rA = modexp_steps (pmP G) (pePublicKey keyB) (piPrivateKey keyA) (unat (nBitsOfExp_of keyA))"
    using modexp [rule_format, of "pmP G" "pePublicKey keyB" "piPrivateKey keyA"
        "nBitsOfExp_of keyA" 0 ?cbS] mA by simp
  then have rA: "rA = g ^ (piPrivateKey keyA * piPrivateKey keyB) mod pmP G"
    using bitsA by (simp add: modexp_steps_fits publicB power_of_power_mod)
  have "rB = modexp_steps (pmP G) (pePublicKey keyA) (piPrivateKey keyB) (unat (nBitsOfExp_of keyB))"
    using modexp [rule_format, of "pmP G" "pePublicKey keyA" "piPrivateKey keyB"
        "nBitsOfExp_of keyB" 0 ?cbS] mB by simp
  then have rB: "rB = g ^ (piPrivateKey keyB * piPrivateKey keyA) mod pmP G"
    using bitsB by (simp add: modexp_steps_fits publicA power_of_power_mod)
  have "rA = rB"
    using rA rB by (simp add: mult.commute)
  with gA gB have "outA = outB"
    by simp
  with dA dB bufA bufB show ?thesis
    by (simp add: store_bytes_whole)
qed

theorem agreement_commutes_witness:
  "(\<forall>P b x n f cb. fst (modexp_result toy_engine P b x n f cb) = modexp_steps P b x (unat n))
   \<and> pDlgroup toy_keyA = toy_group \<and> pDlgroup toy_keyB = toy_group
   \<and> pePublicKey toy_keyA = 5 ^ piPrivateKey toy_keyA mod pmP toy_group
   \<and> pePublicKey toy_keyB = 5 ^ piPrivateKey toy_keyB mod pmP toy_group
   \<and> piPrivateKey toy_keyA < 2 ^ unat (nBitsOfP toy_group)
   \<and> piPrivateKey toy_keyB < 2 ^ unat (nBitsPriv toy_keyB)
   \<and> fst (SymCryptDhSecretAgreement toy_engine toy_keyA toy_keyB 2 0 1 toy_state)
       = Returned SYMCRYPT_NO_ERROR
   \<and> fst (SymCryptDhSecretAgreement toy_engine toy_keyB toy_keyA 2 0 1 toy_state)
       = Returned SYMCRYPT_NO_ERROR
   \<and> pbAgreedSecret (snd (SymCryptDhSecretAgreement toy_engine toy_keyA toy_keyB 2 0 1 toy_state))
       = pbAgreedSecret (snd (SymCryptDhSecretAgreement toy_engine toy_keyB toy_keyA 2 0 1 toy_state))
   \<and> pbAgreedSecret (snd (SymCryptDhSecretAgreement toy_engine toy_keyA toy_keyB 2 0 1 toy_state))
       = [2]"
proof -
  let ?sA = "snd (SymCryptDhSecretAgreement toy_engine toy_keyA toy_keyB 2 0 1 toy_state)"
  let ?sB = "snd (SymCryptDhSecretAgreement toy_engine toy_keyB toy_keyA 2 0 1 toy_state)"
  have modexp: "\<forall>P b x n f cb. fst (modexp_result toy_engine P b x n f cb)
                  = modexp_steps P b x (unat n)"
    by (simp add: toy_engine_def)
  have groups: "pDlgroup toy_keyA = toy_group" "pDlgroup toy_keyB = toy_group"
    by (simp_all add: toy_fields)
  have publicA: "pePublicKey toy_keyA = 5 ^ piPrivateKey toy_keyA mod pmP toy_group"
    and publicB: "pePublicKey toy_keyB = 5 ^ piPrivateKey toy_keyB mod pmP toy_group"
    by (simp_all add: toy_fields toy_group_def)
  have fitsA: "piPrivateKey toy_keyA
      < 2 ^ unat (if fPrivateModQ toy_keyA then nBitsPriv toy_keyA else nBitsOfP toy_group)"
    and fitsB: "piPrivateKey toy_keyB
      < 2 ^ unat (if fPrivateModQ toy_keyB then nBitsPriv toy_keyB else nBitsOfP toy_group)"
    by (simp_all add: toy_keyA_def toy_keyB_def toy_group_def)
  have buf: "length (pbAgreedSecret toy_state) = unat (1::SIZE_T)"
    by (simp add: toy_state_fields)
  have runA: "SymCryptDhSecretAgreement toy_engine toy_keyA toy_keyB 2 0 1 toy_state
                = (Returned SYMCRYPT_NO_ERROR, ?sA)"
    by (simp add: toy_run_AB)
  have runB: "SymCryptDhSecretAgreement toy_engine toy_keyB toy_keyA 2 0 1 toy_state
                = (Returned SYMCRYPT_NO_ERROR, ?sB)"
    by (simp add: toy_run_BA)
  have "pbAgreedSecret ?sA = pbAgreedSecret ?sB"
    using modexp groups publicA publicB fitsA fitsB buf buf runA runB
    by (rule agreement_commutes)
  moreover have "pbAgreedSecret ?sA = [2]"
    by (simp add: toy_run_AB)
  moreover have "piPrivateKey toy_keyA < 2 ^ unat (nBitsOfP toy_group)"
      "piPrivateKey toy_keyB < 2 ^ unat (nBitsPriv toy_keyB)"
    by (simp_all add: toy_keyA_def toy_keyB_def toy_group_def)
  moreover have "fst (SymCryptDhSecretAgreement toy_engine toy_keyA toy_keyB 2 0 1 toy_state)
                   = Returned SYMCRYPT_NO_ERROR"
      "fst (SymCryptDhSecretAgreement toy_engine toy_keyB toy_keyA 2 0 1 toy_state)
                   = Returned SYMCRYPT_NO_ERROR"
    by (simp_all add: toy_run_AB toy_run_BA)
  ultimately show ?thesis
    using modexp groups publicA publicB by simp
qed

end
